theory Spec2Isabelle
  imports Main "HOL-Library.Sublist"
begin

section \<open>Python values, exceptions and the library operations the program uses\<close>

text \<open>
  The program is one Python file, \<^verbatim>\<open>app.py\<close>: five node functions over a shared state
  dictionary, wired into a LangGraph state graph. The values that reach the node functions
  from outside (the decoded JSON of the persona response, the search results) are dynamically
  typed, so they are modelled by a datatype of Python values. A float is kept as its
  \<^verbatim>\<open>repr\<close> text: the program only ever tests it for truth.

  A Python \<^verbatim>\<open>str\<close> is a \<^typ>\<open>string\<close>; one \<^typ>\<open>char\<close> stands for one code point,
  so the model covers the texts whose code points are below 256, and \<^verbatim>\<open>len\<close> is
  \<^const>\<open>length\<close>. A \<^verbatim>\<open>dict\<close> with text keys is an association list read with
  \<^const>\<open>map_of\<close>; its keys are distinct, as a Python dictionary's are.
\<close>

datatype pyval =
    PNone
  | PBool bool
  | PInt int
  | PFloat string
  | PStr string
  | PList "pyval list"
  | PDict "(string \<times> pyval) list"

text \<open>
  The exceptions that can travel through the node functions. \<open>ValidationError\<close> is
  pydantic's, a subclass of \<open>ValueError\<close>, as \<open>JSONDecodeError\<close> is. \<open>OtherError\<close> is
  any exception raised inside a collaborator (the completion, search or lookup client).
\<close>

datatype py_error =
    JSONDecodeError
  | KeyError
  | ValueError
  | ValidationError
  | TypeError
  | IndexError
  | OtherError string

datatype message = SystemMessage string | HumanMessage string

text \<open>Truth value of a Python object, as \<^verbatim>\<open>or\<close> tests it.\<close>

fun truthy :: "pyval \<Rightarrow> bool" where
  "truthy PNone = False"
| "truthy (PBool b) = b"
| "truthy (PInt n) = (n \<noteq> 0)"
| "truthy (PFloat r) = (r \<noteq> ''0.0'' \<and> r \<noteq> ''-0.0'')"
| "truthy (PStr s) = (s \<noteq> [])"
| "truthy (PList xs) = (xs \<noteq> [])"
| "truthy (PDict kv) = (kv \<noteq> [])"

text \<open>\<^verbatim>\<open>a or b\<close>: the first operand when it is true, the second otherwise.\<close>

definition py_or :: "pyval \<Rightarrow> pyval \<Rightarrow> pyval" where
  "py_or a b = (if truthy a then a else b)"

text \<open>\<^verbatim>\<open>d.get(k, default)\<close>.\<close>

definition dict_get :: "(string \<times> pyval) list \<Rightarrow> string \<Rightarrow> pyval \<Rightarrow> pyval" where
  "dict_get kv k d = (case map_of kv k of Some v \<Rightarrow> v | None \<Rightarrow> d)"

text \<open>
  \<^verbatim>\<open>for x in v\<close>: a list yields its items, a text its characters, a dictionary its keys,
  anything else is not iterable.
\<close>

fun py_iter :: "pyval \<Rightarrow> py_error + pyval list" where
  "py_iter (PList xs) = Inr xs"
| "py_iter (PStr s) = Inr (map (\<lambda>c. PStr [c]) s)"
| "py_iter (PDict kv) = Inr (map (\<lambda>p. PStr (fst p)) kv)"
| "py_iter PNone = Inl TypeError"
| "py_iter (PBool b) = Inl TypeError"
| "py_iter (PInt n) = Inl TypeError"
| "py_iter (PFloat r) = Inl TypeError"

text \<open>
  \<^verbatim>\<open>v[k]\<close> for a text key \<open>k\<close>: a dictionary looks the key up and raises \<open>KeyError\<close> when
  it is missing; a list or a text wants an integer index, and the other values are not
  subscriptable: both \<open>TypeError\<close>.
\<close>

fun subscript_key :: "pyval \<Rightarrow> string \<Rightarrow> py_error + pyval" where
  "subscript_key (PDict kv) k = (case map_of kv k of None \<Rightarrow> Inl KeyError | Some v \<Rightarrow> Inr v)"
| "subscript_key (PList xs) k = Inl TypeError"
| "subscript_key (PStr s) k = Inl TypeError"
| "subscript_key PNone k = Inl TypeError"
| "subscript_key (PBool b) k = Inl TypeError"
| "subscript_key (PInt n) k = Inl TypeError"
| "subscript_key (PFloat r) k = Inl TypeError"

text \<open>
  \<^verbatim>\<open>v[:n]\<close>. A list and a text give their first \<open>n\<close> items. A dictionary is asked for the
  key \<^verbatim>\<open>slice(None, n)\<close>: up to Python 3.11 a slice is not hashable (\<open>TypeError\<close>), from
  3.12 it is and the key is missing (\<open>KeyError\<close>); \<open>hashable\<close> says which.
\<close>

fun slice_to :: "bool \<Rightarrow> nat \<Rightarrow> pyval \<Rightarrow> py_error + pyval" where
  "slice_to hashable n (PList xs) = Inr (PList (take n xs))"
| "slice_to hashable n (PStr s) = Inr (PStr (take n s))"
| "slice_to hashable n (PDict kv) = Inl (if hashable then KeyError else TypeError)"
| "slice_to hashable n PNone = Inl TypeError"
| "slice_to hashable n (PBool b) = Inl TypeError"
| "slice_to hashable n (PInt i) = Inl TypeError"
| "slice_to hashable n (PFloat r) = Inl TypeError"

text \<open>\<^verbatim>\<open>xs[i]\<close> on a list: a negative index counts from the end.\<close>

definition list_index :: "'a list \<Rightarrow> int \<Rightarrow> py_error + 'a" where
  "list_index xs i =
     (if 0 \<le> i \<and> i < int (length xs) then Inr (xs ! nat i)
      else if i < 0 \<and> - int (length xs) \<le> i then Inr (xs ! nat (int (length xs) + i))
      else Inl IndexError)"

subsection \<open>Text operations\<close>

text \<open>\<^verbatim>\<open>str.isspace\<close> on the code points below 256.\<close>

definition isspace :: "char \<Rightarrow> bool" where
  "isspace c = (c \<in> set [CHR 0x09, CHR 0x0A, CHR 0x0B, CHR 0x0C, CHR 0x0D,
      CHR 0x1C, CHR 0x1D, CHR 0x1E, CHR 0x1F, CHR 0x20, CHR 0x85, CHR 0xA0])"

text \<open>\<^verbatim>\<open>s.strip()\<close>.\<close>

definition py_strip :: "string \<Rightarrow> string" where
  "py_strip s = rev (dropWhile isspace (rev (dropWhile isspace s)))"

text \<open>
  The scan behind \<^verbatim>\<open>s.split(sep)\<close> for a non-empty \<open>sep\<close>: left to right, cutting at
  each occurrence found and resuming after it.
\<close>

function split_at :: "string \<Rightarrow> string \<Rightarrow> string list" where
  "split_at sep s =
     (if sep = [] then [s]
      else if prefix sep s then [] # split_at sep (drop (length sep) s)
      else (case s of
              [] \<Rightarrow> [[]]
            | c # cs \<Rightarrow> (case split_at sep cs of
                          [] \<Rightarrow> [[c]]
                        | seg # segs \<Rightarrow> (c # seg) # segs)))"
  by pat_completeness auto
termination
  by (relation "measure (\<lambda>(sep, s). length s)") (auto simp: prefix_def)

text \<open>\<^verbatim>\<open>s.split(sep)\<close>: an empty separator raises \<open>ValueError\<close>.\<close>

definition py_split :: "string \<Rightarrow> string \<Rightarrow> py_error + string list" where
  "py_split s sep = (if sep = [] then Inl ValueError else Inr (split_at sep s))"

text \<open>
  \<^verbatim>\<open>s.replace(old, new)\<close>: one pass from the left over non-overlapping occurrences; for
  an empty \<open>old\<close>, \<open>new\<close> goes before every character and at the end.
\<close>

function replace_scan :: "string \<Rightarrow> string \<Rightarrow> string \<Rightarrow> string" where
  "replace_scan old new s =
     (if old = [] then s
      else if prefix old s then new @ replace_scan old new (drop (length old) s)
      else (case s of [] \<Rightarrow> [] | c # cs \<Rightarrow> c # replace_scan old new cs))"
  by pat_completeness auto
termination
  by (relation "measure (\<lambda>(old, new, s). length s)") (auto simp: prefix_def)

definition py_replace :: "string \<Rightarrow> string \<Rightarrow> string \<Rightarrow> string" where
  "py_replace s old new =
     (if old = [] then new @ concat (map (\<lambda>c. c # new) s) else replace_scan old new s)"

text \<open>\<^verbatim>\<open>sep.join(xs)\<close> on texts.\<close>

fun join_texts :: "string \<Rightarrow> string list \<Rightarrow> string" where
  "join_texts sep [] = []"
| "join_texts sep [x] = x"
| "join_texts sep (x # y # ys) = x @ sep @ join_texts sep (y # ys)"

text \<open>\<^verbatim>\<open>sep.join(vs)\<close> on Python values: an item that is not a text raises \<open>TypeError\<close>.\<close>

fun text_items :: "pyval list \<Rightarrow> py_error + string list" where
  "text_items [] = Inr []"
| "text_items (PStr s # vs) =
     (case text_items vs of Inl e \<Rightarrow> Inl e | Inr ss \<Rightarrow> Inr (s # ss))"
| "text_items (v # vs) = Inl TypeError"

definition py_join :: "string \<Rightarrow> pyval list \<Rightarrow> py_error + string" where
  "py_join sep vs = (case text_items vs of Inl e \<Rightarrow> Inl e | Inr ss \<Rightarrow> Inr (join_texts sep ss))"

section \<open>Data model\<close>

text \<open>
  \<^verbatim>\<open>class Analyst(BaseModel)\<close> has three required text fields; the roster holds the
  dictionaries \<^verbatim>\<open>Analyst(...).dict()\<close>, which have exactly these three keys.
\<close>

record analyst =
  name :: string
  role :: string
  affiliation :: string

text \<open>
  \<^verbatim>\<open>class ResearchState(TypedDict)\<close>. A node returns the fields it changes and the graph
  overwrites them in the state; here a node returns the state with these fields updated.
\<close>

record research_state =
  topic :: string
  analysts :: "analyst list"
  current_analyst_index :: int
  sections :: "string list"
  content :: string
  introduction :: string
  conclusion :: string
  final_report :: string

text \<open>
  What the program calls and does not define: the completion client \<^verbatim>\<open>llm.invoke\<close>
  (the text of its answer, or the exception it raised), the search tool, the encyclopedia
  loader (the page texts of the documents it returns), \<^verbatim>\<open>json.loads\<close>, and three points
  where the outcome depends on the installed library version: how pydantic validates a
  field value that is not a text (\<open>None\<close> when it rejects it), whether a slice is hashable,
  and the \<^verbatim>\<open>repr\<close> of a list of texts that an f-string prints. A collaborator is a
  function of its request: what it answers, or the exception it raises, may be anything, but
  the same request gets the same answer.
\<close>

record env =
  llm_invoke :: "message list \<Rightarrow> py_error + string"
  tavily_search_invoke :: "string \<Rightarrow> py_error + pyval"
  wikipedia_load :: "string \<Rightarrow> py_error + string list"
  json_loads :: "string \<Rightarrow> py_error + pyval"
  str_coerce :: "pyval \<Rightarrow> string option"
  slice_hashable :: bool
  repr_list :: "string list \<Rightarrow> string"

section \<open>Persona Generator: \<^verbatim>\<open>create_analysts\<close>\<close>

text \<open>A text is valid for a \<^verbatim>\<open>str\<close> field as it is, empty or not.\<close>

definition str_field :: "env \<Rightarrow> pyval \<Rightarrow> string option" where
  "str_field env v = (case v of PStr s \<Rightarrow> Some s | _ \<Rightarrow> str_coerce env v)"

text \<open>
  \<^verbatim>\<open>Analyst(**kwargs)\<close>: a missing field or a rejected value raises \<open>ValidationError\<close>;
  keys that are no field are ignored.
\<close>

definition Analyst_init :: "env \<Rightarrow> (string \<times> pyval) list \<Rightarrow> py_error + analyst" where
  "Analyst_init env kw =
     (case map_of kw ''name'' of None \<Rightarrow> Inl ValidationError | Some n \<Rightarrow>
      (case map_of kw ''role'' of None \<Rightarrow> Inl ValidationError | Some r \<Rightarrow>
       (case map_of kw ''affiliation'' of None \<Rightarrow> Inl ValidationError | Some a \<Rightarrow>
        (case str_field env n of None \<Rightarrow> Inl ValidationError | Some n' \<Rightarrow>
         (case str_field env r of None \<Rightarrow> Inl ValidationError | Some r' \<Rightarrow>
          (case str_field env a of None \<Rightarrow> Inl ValidationError | Some a' \<Rightarrow>
             Inr \<lparr>name = n', role = r', affiliation = a'\<rparr>))))))"

text \<open>\<^verbatim>\<open>Analyst(**analyst).dict()\<close>: \<^verbatim>\<open>**\<close> wants a mapping.\<close>

fun Analyst_dict :: "env \<Rightarrow> pyval \<Rightarrow> py_error + analyst" where
  "Analyst_dict env (PDict kw) = Analyst_init env kw"
| "Analyst_dict env v = Inl TypeError"

text \<open>The list comprehension: in order, stopping at the first exception.\<close>

fun analysts_of :: "env \<Rightarrow> pyval list \<Rightarrow> py_error + analyst list" where
  "analysts_of env [] = Inr []"
| "analysts_of env (v # vs) =
     (case Analyst_dict env v of
        Inl e \<Rightarrow> Inl e
      | Inr a \<Rightarrow> (case analysts_of env vs of Inl e \<Rightarrow> Inl e | Inr as \<Rightarrow> Inr (a # as)))"

text \<open>The body of the \<^verbatim>\<open>try\<close> block.\<close>

definition parse_analysts :: "env \<Rightarrow> string \<Rightarrow> py_error + analyst list" where
  "parse_analysts env response =
     (case json_loads env response of Inl e \<Rightarrow> Inl e | Inr analysts_data \<Rightarrow>
      (case subscript_key analysts_data ''analysts'' of Inl e \<Rightarrow> Inl e | Inr v \<Rightarrow>
       (case slice_to (slice_hashable env) 3 v of Inl e \<Rightarrow> Inl e | Inr first \<Rightarrow>
        (case py_iter first of Inl e \<Rightarrow> Inl e | Inr items \<Rightarrow> analysts_of env items))))"

text \<open>\<^verbatim>\<open>except (json.JSONDecodeError, KeyError, ValueError)\<close>, subclasses included.\<close>

fun handled :: "py_error \<Rightarrow> bool" where
  "handled JSONDecodeError = True"
| "handled KeyError = True"
| "handled ValueError = True"
| "handled ValidationError = True"
| "handled TypeError = False"
| "handled IndexError = False"
| "handled (OtherError m) = False"

definition default_analysts :: "analyst list" where
  "default_analysts =
     [\<lparr>name = ''Default Analyst 1'', role = ''General Researcher'', affiliation = ''University''\<rparr>,
      \<lparr>name = ''Default Analyst 2'', role = ''Industry Expert'', affiliation = ''Tech Company''\<rparr>,
      \<lparr>name = ''Default Analyst 3'', role = ''Policy Advisor'',
        affiliation = ''Government Think Tank''\<rparr>]"

definition analysts_prompt :: "string \<Rightarrow> string" where
  "analysts_prompt t =
     ''Create 3 diverse AI analyst personas for the topic: '' @ t @
     ''.\<newline>    Output in JSON format with a single key 'analysts' containing an array of objects, each with fields: name, role, affiliation.''"

definition create_analysts :: "env \<Rightarrow> research_state \<Rightarrow> py_error + research_state" where
  "create_analysts env state =
     (case llm_invoke env [SystemMessage (analysts_prompt (topic state))] of
        Inl e \<Rightarrow> Inl e
      | Inr response \<Rightarrow>
          (case parse_analysts env response of
             Inl e \<Rightarrow>
               if handled e
               then Inr (state\<lparr>analysts := default_analysts, current_analyst_index := 0\<rparr>)
               else Inl e
           | Inr roster \<Rightarrow>
               Inr (state\<lparr>analysts := roster, current_analyst_index := 0\<rparr>)))"

section \<open>Interview Conductor: \<^verbatim>\<open>conduct_interview\<close>\<close>

text \<open>
  The loop over \<^verbatim>\<open>search_docs\<close>: a dictionary appends its \<^verbatim>\<open>content\<close>, or when that
  is missing or false its \<^verbatim>\<open>snippet\<close>, or the empty text; a text appends itself; any other
  item appends nothing.
\<close>

fun search_contents_loop :: "pyval list \<Rightarrow> pyval list \<Rightarrow> pyval list" where
  "search_contents_loop acc [] = acc"
| "search_contents_loop acc (PDict doc # docs) =
     search_contents_loop
       (acc @ [py_or (dict_get doc ''content'' (PStr [])) (dict_get doc ''snippet'' (PStr []))])
       docs"
| "search_contents_loop acc (PStr doc # docs) = search_contents_loop (acc @ [PStr doc]) docs"
| "search_contents_loop acc (doc # docs) = search_contents_loop acc docs"

definition search_contents :: "pyval list \<Rightarrow> pyval list" where
  "search_contents search_docs = search_contents_loop [] search_docs"

text \<open>\<^verbatim>\<open>context = "\n".join(search_contents + wiki_contents)\<close>.\<close>

definition context_of :: "pyval list \<Rightarrow> string list \<Rightarrow> py_error + string" where
  "context_of search_docs wiki_contents =
     py_join ''\<newline>'' (search_contents search_docs @ map PStr wiki_contents)"

definition question_prompt :: "analyst \<Rightarrow> string \<Rightarrow> string" where
  "question_prompt a t =
     ''You are '' @ name a @ '', '' @ role a @ ''. Ask a question about '' @ t @ ''.''"

definition answer_prompt :: "string \<Rightarrow> string \<Rightarrow> string" where
  "answer_prompt t ctx =
     ''You are an expert answering questions about '' @ t @
     ''.\<newline>    Use this context to answer: '' @ ctx"

definition section_prompt :: "string \<Rightarrow> analyst \<Rightarrow> string" where
  "section_prompt t a =
     ''Summarize this interview about '' @ t @ '' conducted by '' @ name a @ '':''"

definition conduct_interview :: "env \<Rightarrow> research_state \<Rightarrow> py_error + research_state" where
  "conduct_interview env state =
     (case list_index (analysts state) (current_analyst_index state) of
        Inl e \<Rightarrow> Inl e | Inr a \<Rightarrow>
      (case llm_invoke env [SystemMessage (question_prompt a (topic state))] of
        Inl e \<Rightarrow> Inl e | Inr question \<Rightarrow>
      (case llm_invoke env
              [SystemMessage ''Generate a search query based on the question.'',
               HumanMessage question] of
        Inl e \<Rightarrow> Inl e | Inr search_query \<Rightarrow>
      (case tavily_search_invoke env search_query of
        Inl e \<Rightarrow> Inl e | Inr search_result \<Rightarrow>
      (case wikipedia_load env search_query of
        Inl e \<Rightarrow> Inl e | Inr wiki_contents \<Rightarrow>
      (case py_iter search_result of
        Inl e \<Rightarrow> Inl e | Inr search_docs \<Rightarrow>
      (case context_of search_docs wiki_contents of
        Inl e \<Rightarrow> Inl e | Inr ctx \<Rightarrow>
      (case llm_invoke env
              [SystemMessage (answer_prompt (topic state) ctx), HumanMessage question] of
        Inl e \<Rightarrow> Inl e | Inr answer \<Rightarrow>
      (case llm_invoke env
              [SystemMessage (section_prompt (topic state) a),
               HumanMessage (''Q: '' @ question @ ''\<newline>A: '' @ answer)] of
        Inl e \<Rightarrow> Inl e | Inr section_text \<Rightarrow>
          Inr (state\<lparr>sections := sections state @ [section_text],
                     current_analyst_index := current_analyst_index state + 1\<rparr>))))))))))"

section \<open>Report Synthesizer: \<^verbatim>\<open>write_report\<close>\<close>

definition write_report :: "env \<Rightarrow> research_state \<Rightarrow> py_error + research_state" where
  "write_report env state =
     (case llm_invoke env
             [SystemMessage (''Write a comprehensive report on '' @ topic state @
                '' based on these sections: '' @ repr_list env (sections state))] of
        Inl e \<Rightarrow> Inl e
      | Inr report \<Rightarrow> Inr (state\<lparr>content := report\<rparr>))"

section \<open>Intro/Conclusion Writer: \<^verbatim>\<open>write_intro_conclusion\<close>\<close>

definition intro_conclusion_prompt :: "string \<Rightarrow> string" where
  "intro_conclusion_prompt t =
     ''Write an introduction and conclusion for this report on '' @ t @
     ''. \<newline>    Format your response as follows:\<newline>    Introduction:\<newline>    [Your introduction here]\<newline>    Conclusion:\<newline>    [Your conclusion here]''"

text \<open>
  Lines 112 to 121: the split of the response text. \<^verbatim>\<open>mid_point\<close> is
  \<^verbatim>\<open>len(...) // 2\<close>; \<^verbatim>\<open>s[:m]\<close> and \<^verbatim>\<open>s[m:]\<close> are \<^const>\<open>take\<close> and \<^const>\<open>drop\<close>.
\<close>

definition split_intro_conclusion :: "string \<Rightarrow> py_error + string \<times> string" where
  "split_intro_conclusion response =
     (case py_split response ''Conclusion:'' of
        Inl e \<Rightarrow> Inl e
      | Inr parts \<Rightarrow>
          if length parts = 2
          then Inr (py_strip (py_replace (parts ! 0) ''Introduction:'' []), py_strip (parts ! 1))
          else (let mid_point = length response div 2
                in Inr (py_strip (take mid_point response), py_strip (drop mid_point response))))"

definition write_intro_conclusion :: "env \<Rightarrow> research_state \<Rightarrow> py_error + research_state" where
  "write_intro_conclusion env state =
     (case llm_invoke env
             [SystemMessage (intro_conclusion_prompt (topic state)),
              HumanMessage (content state)] of
        Inl e \<Rightarrow> Inl e
      | Inr response \<Rightarrow>
          (case split_intro_conclusion response of
             Inl e \<Rightarrow> Inl e
           | Inr (intro, concl) \<Rightarrow> Inr (state\<lparr>introduction := intro, conclusion := concl\<rparr>)))"

section \<open>Report Finalizer: \<^verbatim>\<open>finalize_report\<close>\<close>

definition finalize_report :: "research_state \<Rightarrow> research_state" where
  "finalize_report state =
     state\<lparr>final_report :=
       introduction state @ ''\<newline>\<newline>'' @ content state @ ''\<newline>\<newline>'' @ conclusion state\<rparr>"

section \<open>Workflow Controller: \<^verbatim>\<open>build_research_graph\<close>\<close>

datatype node =
    create_analysts_node
  | conduct_interview_node
  | write_report_node
  | write_intro_conclusion_node
  | finalize_report_node
  | END

definition entry_point :: node where
  "entry_point = create_analysts_node"

text \<open>\<^verbatim>\<open>add_node\<close>: the function a node runs.\<close>

fun run_node :: "env \<Rightarrow> node \<Rightarrow> research_state \<Rightarrow> py_error + research_state" where
  "run_node env create_analysts_node x = create_analysts env x"
| "run_node env conduct_interview_node x = conduct_interview env x"
| "run_node env write_report_node x = write_report env x"
| "run_node env write_intro_conclusion_node x = write_intro_conclusion env x"
| "run_node env finalize_report_node x = Inr (finalize_report x)"
| "run_node env END x = Inr x"

text \<open>
  \<^verbatim>\<open>add_edge\<close> and \<^verbatim>\<open>add_conditional_edges\<close>: the node that follows, read on the state
  the finished node has left. The one condition is the lambda of line 147.
\<close>

fun next_node :: "node \<Rightarrow> research_state \<Rightarrow> node" where
  "next_node create_analysts_node x = conduct_interview_node"
| "next_node conduct_interview_node x =
     (if current_analyst_index x < int (length (analysts x))
      then conduct_interview_node else write_report_node)"
| "next_node write_report_node x = write_intro_conclusion_node"
| "next_node write_intro_conclusion_node x = finalize_report_node"
| "next_node finalize_report_node x = END"
| "next_node END x = END"

text \<open>
  The compiled graph, run from node \<open>n\<close>: it returns the nodes entered, in order, and the
  final state, or the exception that ended the run inside the last node entered.
\<close>

function run_graph :: "env \<Rightarrow> node \<Rightarrow> research_state \<Rightarrow> node list \<times> (py_error + research_state)" where
  "run_graph env n x =
     (if n = END then ([], Inr x)
      else (case run_node env n x of
              Inl e \<Rightarrow> ([n], Inl e)
            | Inr x' \<Rightarrow> (case run_graph env (next_node n x') x' of (tr, r) \<Rightarrow> (n # tr, r))))"
  by pat_completeness auto

termination run_graph
proof (relation "measures
    [\<lambda>(env, n, x). (case n of create_analysts_node \<Rightarrow> 5 | conduct_interview_node \<Rightarrow> 4
        | write_report_node \<Rightarrow> 3 | write_intro_conclusion_node \<Rightarrow> 2
        | finalize_report_node \<Rightarrow> 1 | END \<Rightarrow> (0::nat)),
     \<lambda>(env, n, x). nat (int (length (analysts x)) - current_analyst_index x)]", goal_cases)
  case 1
  then show ?case by simp
next
  case (2 env n x x')
  then show ?case
    by (cases n) (auto simp: conduct_interview_def split: sum.splits)
qed

text \<open>The state \<^verbatim>\<open>graph.invoke\<close> is called with (lines 168 to 177).\<close>

definition initial_state :: "string \<Rightarrow> research_state" where
  "initial_state t =
     \<lparr>topic = t, analysts = [], current_analyst_index = 0, sections = [], content = [],
      introduction = [], conclusion = [], final_report = []\<rparr>"

text \<open>
  The button handler: no run on an empty topic (\<open>None\<close>, the warning), otherwise one run
  from the entry point.
\<close>

definition generate_report :: "env \<Rightarrow> string \<Rightarrow> (py_error + research_state) option" where
  "generate_report env t =
     (if t = [] then None else Some (snd (run_graph env entry_point (initial_state t))))"

text \<open>
  The configurations of a run on topic \<open>t\<close>: \<open>reachable env t n x\<close> when the run is about
  to enter node \<open>n\<close> with state \<open>x\<close> (or has reached \<open>END\<close> with it).
\<close>

inductive reachable :: "env \<Rightarrow> string \<Rightarrow> node \<Rightarrow> research_state \<Rightarrow> bool" for env t where
  start: "reachable env t entry_point (initial_state t)"
| step: "reachable env t n x \<Longrightarrow> n \<noteq> END \<Longrightarrow> run_node env n x = Inr x' \<Longrightarrow>
         reachable env t (next_node n x') x'"

section \<open>Notions the properties are stated with\<close>

text \<open>
  The collaborators answer: every completion request and every lookup returns, and every
  search returns items whose texts can be joined.
\<close>

definition responsive :: "env \<Rightarrow> bool" where
  "responsive env \<longleftrightarrow>
     (\<forall>ms. \<exists>r. llm_invoke env ms = Inr r) \<and>
     (\<forall>q. \<exists>v ds ss. tavily_search_invoke env q = Inr v \<and> py_iter v = Inr ds \<and>
        text_items (search_contents ds) = Inr ss) \<and>
     (\<forall>q. \<exists>ws. wikipedia_load env q = Inr ws)"

text \<open>The number of positions of \<open>s\<close> at which the text \<open>x\<close> occurs.\<close>

definition occurrences :: "string \<Rightarrow> string \<Rightarrow> nat" where
  "occurrences x s = length (filter (\<lambda>i. prefix x (drop i s)) [0..<Suc (length s)])"

text \<open>The item a search result contributes to the context: see \<open>search_contents_loop\<close>.\<close>

fun contributes :: "pyval \<Rightarrow> bool" where
  "contributes (PDict doc) = True"
| "contributes (PStr doc) = True"
| "contributes doc = False"

fun contribution :: "pyval \<Rightarrow> pyval" where
  "contribution (PDict doc) =
     (case map_of doc ''content'' of
        Some c \<Rightarrow> if truthy c then c
                  else (case map_of doc ''snippet'' of Some s \<Rightarrow> s | None \<Rightarrow> PStr [])
      | None \<Rightarrow> (case map_of doc ''snippet'' of Some s \<Rightarrow> s | None \<Rightarrow> PStr []))"
| "contribution doc = doc"

text \<open>
  A deterministic fake of the collaborators, for concrete runs: every completion request
  is answered with \<open>response\<close>, \<^verbatim>\<open>json.loads\<close> of that text gives \<open>decoded\<close>, the search
  returns one record with a \<^verbatim>\<open>content\<close> field and the lookup one page.
\<close>

definition fake_env :: "string \<Rightarrow> py_error + pyval \<Rightarrow> env" where
  "fake_env response decoded =
     \<lparr>llm_invoke = (\<lambda>ms. Inr response),
      tavily_search_invoke = (\<lambda>q. Inr (PList [PDict [(''content'', PStr ''found'')]])),
      wikipedia_load = (\<lambda>q. Inr [''page'']),
      json_loads = (\<lambda>s. if s = response then decoded else Inl JSONDecodeError),
      str_coerce = (\<lambda>v. None),
      slice_hashable = False,
      repr_list = concat\<rparr>"

definition one_analyst_response :: string where
  \<open>one_analyst_response = ''{"analysts": [{"name": "Ada", "role": "Analyst", "affiliation": ""}]}''\<close>

definition one_analyst_decoded :: pyval where
  "one_analyst_decoded =
     PDict [(''analysts'',
       PList [PDict [(''name'', PStr ''Ada''), (''role'', PStr ''Analyst''),
                     (''affiliation'', PStr [])]])]"

definition empty_roster_response :: string where
  \<open>empty_roster_response = ''{"analysts": []}''\<close>

definition empty_roster_decoded :: pyval where
  "empty_roster_decoded = PDict [(''analysts'', PList [])]"

definition four_analysts_response :: string where
  \<open>four_analysts_response = ''{"analysts": [{"name": "Ada", "role": "Physicist", "affiliation": "MIT"}, {"name": "Bo", "role": "Engineer", "affiliation": "IBM"}, {"name": "Cy", "role": "Economist", "affiliation": "OECD"}, {"name": "Di", "role": "Journalist", "affiliation": "Wired"}]}''\<close>

definition four_analysts_decoded :: pyval where
  "four_analysts_decoded =
     PDict [(''analysts'',
       PList [PDict [(''name'', PStr ''Ada''), (''role'', PStr ''Physicist''),
                     (''affiliation'', PStr ''MIT'')],
              PDict [(''name'', PStr ''Bo''), (''role'', PStr ''Engineer''),
                     (''affiliation'', PStr ''IBM'')],
              PDict [(''name'', PStr ''Cy''), (''role'', PStr ''Economist''),
                     (''affiliation'', PStr ''OECD'')],
              PDict [(''name'', PStr ''Di''), (''role'', PStr ''Journalist''),
                     (''affiliation'', PStr ''Wired'')]])]"

section \<open>Facts about the text operations\<close>

text \<open>
  The recursive equations of the two scans and of the graph run are used by hand: as
  rewrite rules they would unfold without end on a text that is not a literal.
\<close>

declare split_at.simps [simp del] replace_scan.simps [simp del] run_graph.simps [simp del]

lemma split_at_not_Nil: "split_at sep s \<noteq> []"
  by (induction sep s rule: split_at.induct) (subst split_at.simps, auto split: list.splits)

lemma join_split_at: "sep \<noteq> [] \<Longrightarrow> join_texts sep (split_at sep s) = s"
proof (induction sep s rule: split_at.induct)
  case (1 sep s)
  show ?case
  proof (cases "prefix sep s")
    case True
    then obtain r where r: "s = sep @ r" by (auto simp: prefix_def)
    have ne: "split_at sep r \<noteq> []" by (rule split_at_not_Nil)
    from 1(1)[OF 1(3) True] 1(3) r have "join_texts sep (split_at sep r) = r" by simp
    with ne True 1(3) r show ?thesis
      by (subst split_at.simps) (cases "split_at sep r"; simp)
  next
    case False
    show ?thesis
    proof (cases s)
      case Nil
      with False 1(3) show ?thesis by (subst split_at.simps) simp
    next
      case (Cons c cs)
      from 1(2)[OF 1(3) False Cons] 1(3) have ih: "join_texts sep (split_at sep cs) = cs" by simp
      have ne: "split_at sep cs \<noteq> []" by (rule split_at_not_Nil)
      then obtain seg segs where sg: "split_at sep cs = seg # segs" by (cases "split_at sep cs") auto
      with ih False Cons 1(3) show ?thesis
        by (subst split_at.simps) (cases segs; simp)
    qed
  qed
qed

lemma replace_scan_concat: "old \<noteq> [] \<Longrightarrow> replace_scan old [] s = concat (split_at old s)"
proof (induction old s rule: split_at.induct)
  case (1 sep s)
  show ?case
  proof (cases "prefix sep s")
    case True
    with 1(1)[OF 1(3) True] 1(3) show ?thesis
      by (subst split_at.simps, subst replace_scan.simps) simp
  next
    case False
    show ?thesis
    proof (cases s)
      case Nil
      with False 1(3) show ?thesis by (subst split_at.simps, subst replace_scan.simps) simp
    next
      case (Cons c cs)
      from 1(2)[OF 1(3) False Cons] 1(3) have ih: "replace_scan sep [] cs = concat (split_at sep cs)" by simp
      have ne: "split_at sep cs \<noteq> []" by (rule split_at_not_Nil)
      then obtain seg segs where sg: "split_at sep cs = seg # segs" by (cases "split_at sep cs") auto
      with ih False Cons 1(3) show ?thesis
        by (subst split_at.simps, subst replace_scan.simps) simp
    qed
  qed
qed

lemma split_at_absent: "sep \<noteq> [] \<Longrightarrow> \<not> sublist sep s \<Longrightarrow> split_at sep s = [s]"
proof (induction s)
  case Nil
  then show ?case by (subst split_at.simps) simp
next
  case (Cons c cs)
  from Cons.prems have np: "\<not> prefix sep (c # cs)" using prefix_imp_sublist by blast
  from Cons.prems have "\<not> sublist sep cs" by (meson sublist_Cons_right)
  with Cons have "split_at sep cs = [cs]" by simp
  with np Cons.prems show ?case by (subst split_at.simps) simp
qed

lemma split_at_hd_prefix:
  assumes "sep \<noteq> []" and "split_at sep s = seg # segs"
  shows "prefix seg s"
proof -
  from join_split_at[OF assms(1), of s] assms(2) have "join_texts sep (seg # segs) = s" by simp
  then show ?thesis by (cases segs) (auto simp: prefix_def)
qed

lemma split_at_segments_free:
  "sep \<noteq> [] \<Longrightarrow> seg \<in> set (split_at sep s) \<Longrightarrow> \<not> sublist sep seg"
proof (induction sep s arbitrary: seg rule: split_at.induct)
  case (1 sep s)
  note ne = "1.prems"(1)
  show ?case
  proof (cases "prefix sep s")
    case True
    from "1.prems"(2) True ne have "seg = [] \<or> seg \<in> set (split_at sep (drop (length sep) s))"
      by (subst (asm) split_at.simps) auto
    then show ?thesis
    proof
      assume "seg = []" with ne show ?thesis by simp
    next
      assume "seg \<in> set (split_at sep (drop (length sep) s))"
      from "1.IH"(1)[OF ne True ne this] show ?thesis .
    qed
  next
    case False
    show ?thesis
    proof (cases s)
      case Nil
      with "1.prems"(2) False ne have "seg = []" by (subst (asm) split_at.simps) auto
      with ne show ?thesis by simp
    next
      case (Cons c cs)
      obtain seg0 segs where sg: "split_at sep cs = seg0 # segs"
        using split_at_not_Nil[of sep cs] by (cases "split_at sep cs") auto
      from "1.prems"(2) False ne Cons sg have mem: "seg = c # seg0 \<or> seg \<in> set segs"
        by (subst (asm) split_at.simps) auto
      have ih: "\<And>g. g \<in> set (split_at sep cs) \<Longrightarrow> \<not> sublist sep g"
        using "1.IH"(2)[OF ne False Cons ne] .
      from mem show ?thesis
      proof
        assume e: "seg = c # seg0"
        have "\<not> sublist sep seg0" using ih[of seg0] sg by simp
        moreover have "\<not> prefix sep (c # seg0)"
        proof
          assume "prefix sep (c # seg0)"
          moreover have "prefix (c # seg0) (c # cs)" using split_at_hd_prefix[OF ne sg] by simp
          ultimately have "prefix sep (c # cs)" by (rule prefix_order.trans)
          with False Cons show False by simp
        qed
        ultimately show ?thesis using e by (simp add: sublist_Cons_right)
      next
        assume "seg \<in> set segs"
        then show ?thesis using ih[of seg] sg by simp
      qed
    qed
  qed
qed


section \<open>The Intro/Conclusion Writer\<close>

lemma split_intro_conclusion_labeled:
  "py_split response ''Conclusion:'' = Inr [p0, p1] \<Longrightarrow>
   split_intro_conclusion response =
     Inr (py_strip (py_replace p0 ''Introduction:'' []), py_strip p1)"
  by (simp add: split_intro_conclusion_def)

lemma split_intro_conclusion_fallback:
  "py_split response ''Conclusion:'' = Inr parts \<Longrightarrow> length parts \<noteq> 2 \<Longrightarrow>
   split_intro_conclusion response =
     Inr (py_strip (take (length response div 2) response),
          py_strip (drop (length response div 2) response))"
  by (simp add: split_intro_conclusion_def Let_def)

lemma write_intro_conclusion_response:
  "llm_invoke env [SystemMessage (intro_conclusion_prompt (topic state)),
                   HumanMessage (content state)] = Inr response \<Longrightarrow>
   split_intro_conclusion response = Inr (i, c) \<Longrightarrow>
   write_intro_conclusion env state = Inr (state\<lparr>introduction := i, conclusion := c\<rparr>)"
  by (simp add: write_intro_conclusion_def)

lemma labeled_example:
  "split_intro_conclusion ''Introduction:\<newline>A\<newline>Conclusion:\<newline>B'' = Inr (''A'', ''B'')"
  by (simp add: split_intro_conclusion_def py_split_def split_at.simps replace_scan.simps
      py_replace_def py_strip_def isspace_def)

text \<open>
  C6. When the split of the response on the conclusion label gives exactly two parts, the
  writer returns the first part with the introduction label removed and the second part,
  both stripped of surrounding whitespace; the response
  \<^verbatim>\<open>"Introduction:\nA\nConclusion:\nB"\<close> gives the introduction \<^verbatim>\<open>"A"\<close> and the conclusion
  \<^verbatim>\<open>"B"\<close>.
\<close>

theorem labeled_split:
  "(\<forall>env state response p0 p1.
      llm_invoke env [SystemMessage (intro_conclusion_prompt (topic state)),
                      HumanMessage (content state)] = Inr response \<longrightarrow>
      py_split response ''Conclusion:'' = Inr [p0, p1] \<longrightarrow>
      write_intro_conclusion env state =
        Inr (state\<lparr>introduction := py_strip (py_replace p0 ''Introduction:'' []),
                   conclusion := py_strip p1\<rparr>)) \<and>
   (\<forall>env state.
      llm_invoke env [SystemMessage (intro_conclusion_prompt (topic state)),
                      HumanMessage (content state)]
        = Inr ''Introduction:\<newline>A\<newline>Conclusion:\<newline>B'' \<longrightarrow>
      write_intro_conclusion env state = Inr (state\<lparr>introduction := ''A'', conclusion := ''B''\<rparr>))"
  using split_intro_conclusion_labeled labeled_example
  by (auto intro!: write_intro_conclusion_response)

theorem labeled_split_witness:
  "py_split ''Introduction:\<newline>A\<newline>Conclusion:\<newline>B'' ''Conclusion:''
     = Inr [''Introduction:\<newline>A\<newline>'', ''\<newline>B''] \<and>
   write_intro_conclusion
     (fake_env ''Introduction:\<newline>A\<newline>Conclusion:\<newline>B'' (Inl JSONDecodeError))
     (initial_state ''quantum computing'')
   = Inr ((initial_state ''quantum computing'')\<lparr>introduction := ''A'', conclusion := ''B''\<rparr>)"
proof -
  have sp: "py_split ''Introduction:\<newline>A\<newline>Conclusion:\<newline>B'' ''Conclusion:''
     = Inr [''Introduction:\<newline>A\<newline>'', ''\<newline>B'']"
    by (simp add: py_split_def split_at.simps)
  have st: "py_strip (py_replace ''Introduction:\<newline>A\<newline>'' ''Introduction:'' []) = ''A''"
    "py_strip ''\<newline>B'' = ''B''"
    by (simp_all add: replace_scan.simps py_replace_def py_strip_def isspace_def)
  have llm: "llm_invoke (fake_env ''Introduction:\<newline>A\<newline>Conclusion:\<newline>B'' (Inl JSONDecodeError))
      [SystemMessage (intro_conclusion_prompt (topic (initial_state ''quantum computing''))),
       HumanMessage (content (initial_state ''quantum computing''))]
     = Inr ''Introduction:\<newline>A\<newline>Conclusion:\<newline>B''"
    by (simp add: fake_env_def)
  from labeled_split[THEN conjunct1, rule_format, OF llm sp] st sp show ?thesis by simp
qed

lemma py_split_absent:
  "\<not> sublist ''Conclusion:'' response \<Longrightarrow> py_split response ''Conclusion:'' = Inr [response]"
  by (simp add: py_split_def split_at_absent)

text \<open>
  C7. When the split on the conclusion label gives any number of parts other than two, in
  particular when the label does not occur in the response, the writer cuts the response at
  \<^verbatim>\<open>len // 2\<close>: the first half, stripped, is the introduction and the second half,
  stripped, the conclusion. For a response \<open>S\<close> of 20 characters without the label these are
  \<^verbatim>\<open>S[:10].strip()\<close> and \<^verbatim>\<open>S[10:].strip()\<close>.
\<close>

theorem positional_fallback:
  "(\<forall>env state response parts.
      llm_invoke env [SystemMessage (intro_conclusion_prompt (topic state)),
                      HumanMessage (content state)] = Inr response \<longrightarrow>
      py_split response ''Conclusion:'' = Inr parts \<longrightarrow> length parts \<noteq> 2 \<longrightarrow>
      write_intro_conclusion env state =
        Inr (state\<lparr>introduction := py_strip (take (length response div 2) response),
                   conclusion := py_strip (drop (length response div 2) response)\<rparr>)) \<and>
   (\<forall>env state response.
      llm_invoke env [SystemMessage (intro_conclusion_prompt (topic state)),
                      HumanMessage (content state)] = Inr response \<longrightarrow>
      \<not> sublist ''Conclusion:'' response \<longrightarrow>
      write_intro_conclusion env state =
        Inr (state\<lparr>introduction := py_strip (take (length response div 2) response),
                   conclusion := py_strip (drop (length response div 2) response)\<rparr>)) \<and>
   (\<forall>env state S.
      llm_invoke env [SystemMessage (intro_conclusion_prompt (topic state)),
                      HumanMessage (content state)] = Inr S \<longrightarrow>
      \<not> sublist ''Conclusion:'' S \<longrightarrow> length S = 20 \<longrightarrow>
      write_intro_conclusion env state =
        Inr (state\<lparr>introduction := py_strip (take 10 S), conclusion := py_strip (drop 10 S)\<rparr>))"
proof (intro conjI allI impI)
  fix env :: env and state :: research_state and response parts
  assume "llm_invoke env [SystemMessage (intro_conclusion_prompt (topic state)),
                      HumanMessage (content state)] = Inr response"
    and "py_split response ''Conclusion:'' = Inr parts" and "length parts \<noteq> 2"
  then show "write_intro_conclusion env state =
        Inr (state\<lparr>introduction := py_strip (take (length response div 2) response),
                   conclusion := py_strip (drop (length response div 2) response)\<rparr>)"
    by (auto intro!: write_intro_conclusion_response split_intro_conclusion_fallback)
next
  fix env :: env and state :: research_state and response
  assume llm: "llm_invoke env [SystemMessage (intro_conclusion_prompt (topic state)),
                      HumanMessage (content state)] = Inr response"
    and "\<not> sublist ''Conclusion:'' response"
  then have "py_split response ''Conclusion:'' = Inr [response]" by (simp add: py_split_absent)
  then have "split_intro_conclusion response =
      Inr (py_strip (take (length response div 2) response),
           py_strip (drop (length response div 2) response))"
    by (rule split_intro_conclusion_fallback) simp
  with llm show "write_intro_conclusion env state =
        Inr (state\<lparr>introduction := py_strip (take (length response div 2) response),
                   conclusion := py_strip (drop (length response div 2) response)\<rparr>)"
    by (rule write_intro_conclusion_response)
next
  fix env :: env and state :: research_state and S
  assume llm: "llm_invoke env [SystemMessage (intro_conclusion_prompt (topic state)),
                      HumanMessage (content state)] = Inr S"
    and "\<not> sublist ''Conclusion:'' S" and len: "length S = 20"
  then have "py_split S ''Conclusion:'' = Inr [S]" by (simp add: py_split_absent)
  then have "split_intro_conclusion S =
      Inr (py_strip (take (length S div 2) S), py_strip (drop (length S div 2) S))"
    by (rule split_intro_conclusion_fallback) simp
  with len have "split_intro_conclusion S = Inr (py_strip (take 10 S), py_strip (drop 10 S))"
    by simp
  with llm show "write_intro_conclusion env state =
        Inr (state\<lparr>introduction := py_strip (take 10 S), conclusion := py_strip (drop 10 S)\<rparr>)"
    by (rule write_intro_conclusion_response)
qed

theorem positional_fallback_witness:
  "length ''The report is ready.'' = 20 \<and>
   \<not> sublist ''Conclusion:'' ''The report is ready.'' \<and>
   write_intro_conclusion (fake_env ''The report is ready.'' (Inl JSONDecodeError))
     (initial_state ''quantum computing'')
   = Inr ((initial_state ''quantum computing'')\<lparr>introduction := ''The report'',
                                                  conclusion := ''is ready.''\<rparr>)"
proof -
  have len: "length ''The report is ready.'' = 20" by simp
  have ns: "\<not> sublist ''Conclusion:'' ''The report is ready.''"
    by (simp add: sublist_Cons_right)
  have llm: "llm_invoke (fake_env ''The report is ready.'' (Inl JSONDecodeError))
      [SystemMessage (intro_conclusion_prompt (topic (initial_state ''quantum computing''))),
       HumanMessage (content (initial_state ''quantum computing''))]
     = Inr ''The report is ready.''"
    by (simp add: fake_env_def)
  have st: "py_strip (take 10 ''The report is ready.'') = ''The report''"
    "py_strip (drop 10 ''The report is ready.'') = ''is ready.''"
    by (simp_all add: py_strip_def isspace_def)
  from positional_fallback[THEN conjunct2, THEN conjunct2, rule_format, OF llm ns len] st len ns
  show ?thesis by simp
qed

lemma interior_label_example:
  "split_intro_conclusion ''Introduction:\<newline>AI Introduction: B\<newline>Conclusion:\<newline>C''
     = Inr (''AI  B'', ''C'')"
  by (simp add: split_intro_conclusion_def py_split_def split_at.simps replace_scan.simps
      py_replace_def py_strip_def isspace_def)

text \<open>
  C9. In the labeled case the first part is cut at every occurrence of
  \<^verbatim>\<open>"Introduction:"\<close>: it is the pieces \<open>segs\<close> joined by the label, no piece contains the
  label, and the introduction returned is the pieces glued together without it, stripped.
  So a label inside the introduction text is deleted as well as a leading one: the response
  \<^verbatim>\<open>"Introduction:\nAI Introduction: B\nConclusion:\nC"\<close> gives the introduction
  \<^verbatim>\<open>"AI  B"\<close>.
\<close>

theorem introduction_label_removed_everywhere:
  "(\<forall>env state response p0 p1.
      llm_invoke env [SystemMessage (intro_conclusion_prompt (topic state)),
                      HumanMessage (content state)] = Inr response \<longrightarrow>
      py_split response ''Conclusion:'' = Inr [p0, p1] \<longrightarrow>
      (\<exists>segs. p0 = join_texts ''Introduction:'' segs \<and>
         (\<forall>seg \<in> set segs. \<not> sublist ''Introduction:'' seg) \<and>
         write_intro_conclusion env state =
           Inr (state\<lparr>introduction := py_strip (concat segs), conclusion := py_strip p1\<rparr>))) \<and>
   (\<forall>env state.
      llm_invoke env [SystemMessage (intro_conclusion_prompt (topic state)),
                      HumanMessage (content state)]
        = Inr ''Introduction:\<newline>AI Introduction: B\<newline>Conclusion:\<newline>C'' \<longrightarrow>
      write_intro_conclusion env state =
        Inr (state\<lparr>introduction := ''AI  B'', conclusion := ''C''\<rparr>))"
proof (intro conjI allI impI)
  fix env :: env and state :: research_state and response p0 p1
  assume llm: "llm_invoke env [SystemMessage (intro_conclusion_prompt (topic state)),
                      HumanMessage (content state)] = Inr response"
    and sp: "py_split response ''Conclusion:'' = Inr [p0, p1]"
  let ?segs = "split_at ''Introduction:'' p0"
  have "p0 = join_texts ''Introduction:'' ?segs" by (simp add: join_split_at)
  moreover have "\<forall>seg \<in> set ?segs. \<not> sublist ''Introduction:'' seg"
    using split_at_segments_free[of "''Introduction:''" _ p0] by blast
  moreover have "py_replace p0 ''Introduction:'' [] = concat ?segs"
    by (simp add: py_replace_def replace_scan_concat)
  with split_intro_conclusion_labeled[OF sp]
  have "write_intro_conclusion env state =
      Inr (state\<lparr>introduction := py_strip (concat ?segs), conclusion := py_strip p1\<rparr>)"
    by (intro write_intro_conclusion_response[OF llm]) simp
  ultimately show "\<exists>segs. p0 = join_texts ''Introduction:'' segs \<and>
         (\<forall>seg \<in> set segs. \<not> sublist ''Introduction:'' seg) \<and>
         write_intro_conclusion env state =
           Inr (state\<lparr>introduction := py_strip (concat segs), conclusion := py_strip p1\<rparr>)"
    by blast
next
  fix env :: env and state :: research_state
  assume "llm_invoke env [SystemMessage (intro_conclusion_prompt (topic state)),
                      HumanMessage (content state)]
        = Inr ''Introduction:\<newline>AI Introduction: B\<newline>Conclusion:\<newline>C''"
  then show "write_intro_conclusion env state =
        Inr (state\<lparr>introduction := ''AI  B'', conclusion := ''C''\<rparr>)"
    using interior_label_example by (rule write_intro_conclusion_response)
qed

theorem introduction_label_removed_everywhere_witness:
  "py_split ''Introduction:\<newline>AI Introduction: B\<newline>Conclusion:\<newline>C'' ''Conclusion:''
     = Inr [''Introduction:\<newline>AI Introduction: B\<newline>'', ''\<newline>C''] \<and>
   (\<exists>segs. ''Introduction:\<newline>AI Introduction: B\<newline>'' = join_texts ''Introduction:'' segs \<and>
      list_all (\<lambda>seg. \<not> sublist ''Introduction:'' seg) segs \<and>
      write_intro_conclusion
        (fake_env ''Introduction:\<newline>AI Introduction: B\<newline>Conclusion:\<newline>C''
           (Inl JSONDecodeError))
        (initial_state ''quantum computing'')
      = Inr ((initial_state ''quantum computing'')\<lparr>introduction := py_strip (concat segs),
                                                     conclusion := ''C''\<rparr>))"
proof -
  have sp: "py_split ''Introduction:\<newline>AI Introduction: B\<newline>Conclusion:\<newline>C'' ''Conclusion:''
     = Inr [''Introduction:\<newline>AI Introduction: B\<newline>'', ''\<newline>C'']"
    by (simp add: py_split_def split_at.simps)
  have llm: "llm_invoke (fake_env ''Introduction:\<newline>AI Introduction: B\<newline>Conclusion:\<newline>C''
           (Inl JSONDecodeError))
      [SystemMessage (intro_conclusion_prompt (topic (initial_state ''quantum computing''))),
       HumanMessage (content (initial_state ''quantum computing''))]
     = Inr ''Introduction:\<newline>AI Introduction: B\<newline>Conclusion:\<newline>C''"
    by (simp add: fake_env_def)
  have st: "py_strip ''\<newline>C'' = ''C''" by (simp add: py_strip_def isspace_def)
  from introduction_label_removed_everywhere[THEN conjunct1, rule_format, OF llm sp] st sp
  show ?thesis by (simp add: list_all_iff)
qed

section \<open>The Report Finalizer\<close>

lemma occurrences_pos:
  assumes "i \<le> length s" and "prefix x (drop i s)"
  shows "1 \<le> occurrences x s"
proof -
  from assms(1) have "i \<in> set [0..<Suc (length s)]" by (auto simp: less_Suc_eq_le)
  with assms(2) have "\<exists>j\<in>set [0..<Suc (length s)]. prefix x (drop j s)" by blast
  then have "filter (\<lambda>j. prefix x (drop j s)) [0..<Suc (length s)] \<noteq> []"
    by (simp only: filter_empty_conv) blast
  then have "0 < length (filter (\<lambda>j. prefix x (drop j s)) [0..<Suc (length s)])"
    by simp
  then show ?thesis by (simp add: occurrences_def Suc_le_eq)
qed

lemma drop_length_append: "n = length ys \<Longrightarrow> drop n (ys @ zs) = zs"
  by simp

text \<open>
  C8, as the code has it. The finalizer changes the final text only, to the introduction,
  a blank line, the body, a blank line and the conclusion, in this order; the result depends
  on these three fields alone. Each input stands at its own place in the output (the
  introduction at offset 0, the body after the first blank line, the conclusion after the
  second, to the end) and the output is 4 characters longer than the three together, so each
  input occurs at least once. It is not promised to occur exactly once.
\<close>

theorem finalize_report_layout:
  "finalize_report x =
     x\<lparr>final_report := introduction x @ ''\<newline>\<newline>'' @ content x @ ''\<newline>\<newline>'' @ conclusion x\<rparr> \<and>
   (\<forall>y. introduction y = introduction x \<and> content y = content x \<and> conclusion y = conclusion x
      \<longrightarrow> final_report (finalize_report y) = final_report (finalize_report x)) \<and>
   length (final_report (finalize_report x)) =
     length (introduction x) + length (content x) + length (conclusion x) + 4 \<and>
   take (length (introduction x)) (final_report (finalize_report x)) = introduction x \<and>
   take (length (content x)) (drop (length (introduction x) + 2) (final_report (finalize_report x)))
     = content x \<and>
   drop (length (introduction x) + 2 + length (content x) + 2) (final_report (finalize_report x))
     = conclusion x \<and>
   1 \<le> occurrences (introduction x) (final_report (finalize_report x)) \<and>
   1 \<le> occurrences (content x) (final_report (finalize_report x)) \<and>
   1 \<le> occurrences (conclusion x) (final_report (finalize_report x))"
proof -
  let ?out = "introduction x @ ''\<newline>\<newline>'' @ content x @ ''\<newline>\<newline>'' @ conclusion x"
  have out: "final_report (finalize_report x) = ?out" by (simp add: finalize_report_def)
  have o1: "1 \<le> occurrences (introduction x) ?out"
    by (rule occurrences_pos[of 0]) simp_all
  have d2: "drop (length (introduction x) + 2) ?out = content x @ ''\<newline>\<newline>'' @ conclusion x"
    by simp
  have "drop (length (introduction x) + 2 + length (content x) + 2)
          ((introduction x @ ''\<newline>\<newline>'' @ content x @ ''\<newline>\<newline>'') @ conclusion x) = conclusion x"
    by (rule drop_length_append) simp
  then have d3: "drop (length (introduction x) + 2 + length (content x) + 2) ?out = conclusion x"
    by simp
  have o2: "1 \<le> occurrences (content x) ?out"
  proof (rule occurrences_pos[of "length (introduction x) + 2"])
    show "length (introduction x) + 2 \<le> length ?out" by simp
    show "prefix (content x) (drop (length (introduction x) + 2) ?out)"
      by (simp only: d2 prefixI)
  qed
  have o3: "1 \<le> occurrences (conclusion x) ?out"
  proof (rule occurrences_pos[of "length (introduction x) + 2 + length (content x) + 2"])
    show "length (introduction x) + 2 + length (content x) + 2 \<le> length ?out" by simp
    show "prefix (conclusion x) (drop (length (introduction x) + 2 + length (content x) + 2) ?out)"
      by (simp only: d3 prefix_order.refl)
  qed
  have t2: "take (length (content x)) (drop (length (introduction x) + 2) ?out) = content x"
    by (simp only: d2) simp
  show ?thesis
    unfolding out using o1 o2 o3 d3 t2 by (simp add: finalize_report_def)
qed

theorem finalize_report_layout_witness:
  "final_report (finalize_report ((initial_state ''t'')\<lparr>introduction := ''AI'',
      content := ''AI matters.'', conclusion := ''Done.'', final_report := ''old''\<rparr>))
   = final_report (finalize_report ((initial_state ''t'')\<lparr>introduction := ''AI'',
      content := ''AI matters.'', conclusion := ''Done.''\<rparr>)) \<and>
   final_report (finalize_report ((initial_state ''t'')\<lparr>introduction := ''AI'',
      content := ''AI matters.'', conclusion := ''Done.''\<rparr>))
   = ''AI\<newline>\<newline>AI matters.\<newline>\<newline>Done.''"
  using finalize_report_layout[of "(initial_state ''t'')\<lparr>introduction := ''AI'',
      content := ''AI matters.'', conclusion := ''Done.''\<rparr>", THEN conjunct2, THEN conjunct1,
    rule_format, of "(initial_state ''t'')\<lparr>introduction := ''AI'',
      content := ''AI matters.'', conclusion := ''Done.'', final_report := ''old''\<rparr>"]
    finalize_report_layout[of "(initial_state ''t'')\<lparr>introduction := ''AI'',
      content := ''AI matters.'', conclusion := ''Done.''\<rparr>", THEN conjunct1]
  by (simp add: initial_state_def)

text \<open>
  C8, as the claim states it, fails: with the introduction \<^verbatim>\<open>"AI"\<close> and the body
  \<^verbatim>\<open>"AI matters."\<close> the introduction occurs twice in the final text.
\<close>

theorem finalize_exactly_once_counterexample:
  "occurrences ''AI''
     (final_report (finalize_report ((initial_state ''t'')\<lparr>introduction := ''AI'',
        content := ''AI matters.'', conclusion := ''Done.''\<rparr>))) = 2"
  by (simp add: finalize_report_def initial_state_def occurrences_def upt_rec)

section \<open>Evidence normalization in the Interview Conductor\<close>

lemma py_or_contribution:
  "py_or (dict_get doc ''content'' (PStr [])) (dict_get doc ''snippet'' (PStr []))
     = contribution (PDict doc)"
  by (simp add: py_or_def dict_get_def split: option.splits)

lemma search_contents_loop_eq:
  "search_contents_loop acc docs = acc @ map contribution (filter contributes docs)"
  by (induction acc docs rule: search_contents_loop.induct)
     (simp_all only: search_contents_loop.simps py_or_contribution contributes.simps
        contribution.simps(2-)
        filter.simps list.map append_assoc append_Cons append_Nil append_Nil2 if_True if_False)

lemma text_items_append:
  "text_items vs = Inr ss \<Longrightarrow> text_items (vs @ map PStr ws) = Inr (ss @ ws)"
proof (induction vs arbitrary: ss rule: text_items.induct)
  case 1
  then show ?case by (induction ws) auto
qed (auto split: sum.splits)

text \<open>
  C1, as the code has it. Every search result that is a record or a text contributes one
  item, in the order of the results, and the other results contribute nothing: a record
  gives its \<^verbatim>\<open>content\<close> field, or when that is missing or empty its \<^verbatim>\<open>snippet\<close> field, or
  the empty text when it has neither; a text gives itself. No contributed item is dropped,
  an empty one stays as an empty line. The context is the items joined by newlines, search
  results first and encyclopedia pages after. The mixed list of the claim yields 4 items:
  the three texts in their order and the empty text of the record with neither field.
\<close>

theorem evidence_normalization:
  "search_contents docs = map contribution (filter contributes docs) \<and>
   length (search_contents docs) = length (filter contributes docs) \<and>
   context_of docs wiki =
     py_join ''\<newline>'' (map contribution (filter contributes docs) @ map PStr wiki) \<and>
   (\<forall>ss. text_items (search_contents docs) = Inr ss \<longrightarrow>
      context_of docs wiki = Inr (join_texts ''\<newline>'' (ss @ wiki))) \<and>
   search_contents
     [PDict [(''content'', PStr a)], PDict [(''snippet'', PStr b)], PStr c, PDict other]
   = [PStr a, PStr b, PStr c, contribution (PDict other)] \<and>
   (map_of other ''content'' = None \<and> map_of other ''snippet'' = None \<longrightarrow>
      contribution (PDict other) = PStr [])"
proof -
  have sc: "\<And>ds. search_contents ds = map contribution (filter contributes ds)"
    by (simp add: search_contents_def search_contents_loop_eq)
  have "\<And>ss. text_items (search_contents docs) = Inr ss \<Longrightarrow>
      context_of docs wiki = Inr (join_texts ''\<newline>'' (ss @ wiki))"
    by (simp add: context_of_def py_join_def text_items_append)
  moreover have "search_contents
     [PDict [(''content'', PStr a)], PDict [(''snippet'', PStr b)], PStr c, PDict other]
   = [PStr a, PStr b, PStr c, contribution (PDict other)]"
    unfolding sc by simp
  ultimately show ?thesis
    using sc by (simp add: context_of_def)
qed

theorem evidence_normalization_witness:
  "text_items (search_contents [PDict [(''content'', PStr ''alpha'')],
       PDict [(''snippet'', PStr ''beta'')], PStr ''gamma'', PDict [(''url'', PStr ''u'')]])
     = Inr [''alpha'', ''beta'', ''gamma'', []] \<and>
   context_of [PDict [(''content'', PStr ''alpha'')],
       PDict [(''snippet'', PStr ''beta'')], PStr ''gamma'', PDict [(''url'', PStr ''u'')]]
     [''page'']
   = Inr ''alpha\<newline>beta\<newline>gamma\<newline>\<newline>page'' \<and>
   contribution (PDict [(''url'', PStr ''u'')]) = PStr []"
proof -
  let ?docs = "[PDict [(''content'', PStr ''alpha'')],
       PDict [(''snippet'', PStr ''beta'')], PStr ''gamma'', PDict [(''url'', PStr ''u'')]]"
  have no: "map_of [(''url'', PStr ''u'')] ''content'' = None \<and>
            map_of [(''url'', PStr ''u'')] ''snippet'' = None" by simp
  have c: "contribution (PDict [(''url'', PStr ''u'')]) = PStr []"
    using evidence_normalization[of _ _ _ _ _ "[(''url'', PStr ''u'')]"] no by blast
  have ti: "text_items (search_contents ?docs) = Inr [''alpha'', ''beta'', ''gamma'', []]"
    using evidence_normalization[of ?docs] by simp
  from evidence_normalization[of ?docs "[''page'']", THEN conjunct2, THEN conjunct2,
      THEN conjunct2, THEN conjunct1, rule_format, OF ti] ti c
  show ?thesis by simp
qed

text \<open>
  C1, as the claim states it, fails: on the mixed list the record with neither field is not
  dropped, it contributes an empty text, so normalization yields 4 items, not 3, and the
  context has an empty line for it.
\<close>

theorem evidence_normalization_counterexample:
  "search_contents [PDict [(''content'', PStr ''alpha'')],
       PDict [(''snippet'', PStr ''beta'')], PStr ''gamma'', PDict [(''url'', PStr ''u'')]]
     = [PStr ''alpha'', PStr ''beta'', PStr ''gamma'', PStr []] \<and>
   length (search_contents [PDict [(''content'', PStr ''alpha'')],
       PDict [(''snippet'', PStr ''beta'')], PStr ''gamma'', PDict [(''url'', PStr ''u'')]]) = 4 \<and>
   context_of [PDict [(''content'', PStr ''alpha'')],
       PDict [(''snippet'', PStr ''beta'')], PStr ''gamma'', PDict [(''url'', PStr ''u'')]] []
     = Inr ''alpha\<newline>beta\<newline>gamma\<newline>''"
  by (simp add: search_contents_def context_of_def py_join_def py_or_def dict_get_def)

section \<open>The Persona Generator\<close>

lemma analysts_of_length: "analysts_of env items = Inr roster \<Longrightarrow> length roster = length items"
  by (induction items arbitrary: roster) (auto split: sum.splits)

lemma analysts_of_take:
  "analysts_of env items = Inr roster \<Longrightarrow> analysts_of env (take n items) = Inr (take n roster)"
proof (induction items arbitrary: roster n)
  case Nil
  then show ?case by simp
next
  case (Cons v vs)
  then show ?case by (cases n) (auto split: sum.splits)
qed

lemma parse_analysts_list:
  "json_loads env r = Inr (PDict kv) \<Longrightarrow> map_of kv ''analysts'' = Some (PList items) \<Longrightarrow>
   parse_analysts env r = analysts_of env (take 3 items)"
  by (simp add: parse_analysts_def)

lemma parse_analysts_bound: "parse_analysts env r = Inr roster \<Longrightarrow> length roster \<le> 3"
proof -
  assume p: "parse_analysts env r = Inr roster"
  then obtain v first items where v: "slice_to (slice_hashable env) 3 v = Inr first"
      and it: "py_iter first = Inr items" and ro: "analysts_of env items = Inr roster"
    by (auto simp: parse_analysts_def split: sum.splits)
  from v it have "length items \<le> 3" by (cases v) auto
  with analysts_of_length[OF ro] show ?thesis by simp
qed

lemma create_analysts_parsed:
  "llm_invoke env [SystemMessage (analysts_prompt (topic x))] = Inr r \<Longrightarrow>
   parse_analysts env r = Inr roster \<Longrightarrow>
   create_analysts env x = Inr (x\<lparr>analysts := roster, current_analyst_index := 0\<rparr>)"
  by (simp add: create_analysts_def)

lemma create_analysts_fallback:
  "llm_invoke env [SystemMessage (analysts_prompt (topic x))] = Inr r \<Longrightarrow>
   parse_analysts env r = Inl e \<Longrightarrow> handled e \<Longrightarrow>
   create_analysts env x = Inr (x\<lparr>analysts := default_analysts, current_analyst_index := 0\<rparr>)"
  by (simp add: create_analysts_def)

lemma create_analysts_propagates:
  "llm_invoke env [SystemMessage (analysts_prompt (topic x))] = Inr r \<Longrightarrow>
   parse_analysts env r = Inl e \<Longrightarrow> \<not> handled e \<Longrightarrow> create_analysts env x = Inl e"
  by (simp add: create_analysts_def)

lemma create_analysts_result:
  assumes "create_analysts env x = Inr x'"
  shows "x' = x\<lparr>analysts := analysts x', current_analyst_index := 0\<rparr> \<and> length (analysts x') \<le> 3"
proof -
  from assms obtain r where r: "llm_invoke env [SystemMessage (analysts_prompt (topic x))] = Inr r"
    by (auto simp: create_analysts_def split: sum.splits)
  show ?thesis
  proof (cases "parse_analysts env r")
    case (Inl e)
    with assms r show ?thesis
      by (auto simp: create_analysts_def default_analysts_def split: if_splits)
  next
    case (Inr roster)
    with assms r parse_analysts_bound[OF Inr] show ?thesis
      by (auto simp: create_analysts_def)
  qed
qed


lemma Analyst_dict_texts:
  "map_of kw ''name'' = Some (PStr n) \<Longrightarrow> map_of kw ''role'' = Some (PStr r) \<Longrightarrow>
   map_of kw ''affiliation'' = Some (PStr a) \<Longrightarrow>
   Analyst_dict env (PDict kw) = Inr \<lparr>name = n, role = r, affiliation = a\<rparr>"
  by (simp add: Analyst_init_def str_field_def)

lemma Analyst_dict_missing:
  "map_of kw ''name'' = None \<or> map_of kw ''role'' = None \<or> map_of kw ''affiliation'' = None \<Longrightarrow>
   Analyst_dict env (PDict kw) = Inl ValidationError"
  by (auto simp: Analyst_init_def split: option.splits)

lemma four_analysts_valid:
  "analysts_of env [PDict [(''name'', PStr ''Ada''), (''role'', PStr ''Physicist''),
                     (''affiliation'', PStr ''MIT'')],
              PDict [(''name'', PStr ''Bo''), (''role'', PStr ''Engineer''),
                     (''affiliation'', PStr ''IBM'')],
              PDict [(''name'', PStr ''Cy''), (''role'', PStr ''Economist''),
                     (''affiliation'', PStr ''OECD'')],
              PDict [(''name'', PStr ''Di''), (''role'', PStr ''Journalist''),
                     (''affiliation'', PStr ''Wired'')]]
   = Inr [\<lparr>name = ''Ada'', role = ''Physicist'', affiliation = ''MIT''\<rparr>,
          \<lparr>name = ''Bo'', role = ''Engineer'', affiliation = ''IBM''\<rparr>,
          \<lparr>name = ''Cy'', role = ''Economist'', affiliation = ''OECD''\<rparr>,
          \<lparr>name = ''Di'', role = ''Journalist'', affiliation = ''Wired''\<rparr>]"
  by (simp add: Analyst_init_def str_field_def)

text \<open>
  C10. When the response decodes to an object whose \<^verbatim>\<open>analysts\<close> entry lists more than
  three valid records, the roster is the first three of them, in the order of the response;
  the records after the third are not looked at (it is enough that the first three are
  valid). Whatever the response, a roster the Persona Generator returns has at most three
  entries.
\<close>

theorem roster_first_three:
  "(\<forall>env x r kv items valid.
      llm_invoke env [SystemMessage (analysts_prompt (topic x))] = Inr r \<longrightarrow>
      json_loads env r = Inr (PDict kv) \<longrightarrow> map_of kv ''analysts'' = Some (PList items) \<longrightarrow>
      3 < length items \<longrightarrow> analysts_of env items = Inr valid \<longrightarrow>
      create_analysts env x = Inr (x\<lparr>analysts := take 3 valid, current_analyst_index := 0\<rparr>) \<and>
      length (take 3 valid) = 3) \<and>
   (\<forall>env x r kv items first.
      llm_invoke env [SystemMessage (analysts_prompt (topic x))] = Inr r \<longrightarrow>
      json_loads env r = Inr (PDict kv) \<longrightarrow> map_of kv ''analysts'' = Some (PList items) \<longrightarrow>
      3 < length items \<longrightarrow> analysts_of env (take 3 items) = Inr first \<longrightarrow>
      create_analysts env x = Inr (x\<lparr>analysts := first, current_analyst_index := 0\<rparr>) \<and>
      length first = 3) \<and>
   (\<forall>env x x'. create_analysts env x = Inr x' \<longrightarrow> length (analysts x') \<le> 3)"
proof (intro conjI allI impI)
  fix env :: env and x :: research_state and r kv items valid
  assume llm: "llm_invoke env [SystemMessage (analysts_prompt (topic x))] = Inr r"
    and js: "json_loads env r = Inr (PDict kv)" and an: "map_of kv ''analysts'' = Some (PList items)"
    and len: "3 < length items" and ok: "analysts_of env items = Inr valid"
  from analysts_of_take[OF ok, of 3] parse_analysts_list[OF js an]
  have "parse_analysts env r = Inr (take 3 valid)" by simp
  from create_analysts_parsed[OF llm this]
  show "create_analysts env x = Inr (x\<lparr>analysts := take 3 valid, current_analyst_index := 0\<rparr>)" .
  from analysts_of_length[OF ok] len show "length (take 3 valid) = 3" by simp
next
  fix env :: env and x :: research_state and r kv items first
  assume llm: "llm_invoke env [SystemMessage (analysts_prompt (topic x))] = Inr r"
    and js: "json_loads env r = Inr (PDict kv)" and an: "map_of kv ''analysts'' = Some (PList items)"
    and len: "3 < length items" and ok: "analysts_of env (take 3 items) = Inr first"
  from ok parse_analysts_list[OF js an] have "parse_analysts env r = Inr first" by simp
  from create_analysts_parsed[OF llm this]
  show "create_analysts env x = Inr (x\<lparr>analysts := first, current_analyst_index := 0\<rparr>)" .
  from analysts_of_length[OF ok] len show "length first = 3" by simp
next
  fix env :: env and x x' :: research_state
  assume "create_analysts env x = Inr x'"
  from create_analysts_result[OF this] show "length (analysts x') \<le> 3" by simp
qed

theorem roster_first_three_witness:
  "create_analysts (fake_env four_analysts_response (Inr four_analysts_decoded))
     (initial_state ''quantum computing'')
   = Inr ((initial_state ''quantum computing'')
       \<lparr>analysts := [\<lparr>name = ''Ada'', role = ''Physicist'', affiliation = ''MIT''\<rparr>,
                     \<lparr>name = ''Bo'', role = ''Engineer'', affiliation = ''IBM''\<rparr>,
                     \<lparr>name = ''Cy'', role = ''Economist'', affiliation = ''OECD''\<rparr>],
        current_analyst_index := 0\<rparr>)"
proof -
  let ?env = "fake_env four_analysts_response (Inr four_analysts_decoded)"
  let ?items = "[PDict [(''name'', PStr ''Ada''), (''role'', PStr ''Physicist''),
                     (''affiliation'', PStr ''MIT'')],
              PDict [(''name'', PStr ''Bo''), (''role'', PStr ''Engineer''),
                     (''affiliation'', PStr ''IBM'')],
              PDict [(''name'', PStr ''Cy''), (''role'', PStr ''Economist''),
                     (''affiliation'', PStr ''OECD'')],
              PDict [(''name'', PStr ''Di''), (''role'', PStr ''Journalist''),
                     (''affiliation'', PStr ''Wired'')]]"
  have llm: "llm_invoke ?env
      [SystemMessage (analysts_prompt (topic (initial_state ''quantum computing'')))]
      = Inr four_analysts_response"
    by (simp add: fake_env_def)
  have js: "json_loads ?env four_analysts_response = Inr (PDict [(''analysts'', PList ?items)])"
    by (simp add: fake_env_def four_analysts_decoded_def)
  have an: "map_of [(''analysts'', PList ?items)] ''analysts'' = Some (PList ?items)" by simp
  have len: "3 < length ?items" by simp
  from roster_first_three[THEN conjunct1, rule_format, OF llm js an len four_analysts_valid]
  show ?thesis by simp
qed


lemma default_analysts_valid:
  "length default_analysts = 3 \<and>
   list_all (\<lambda>a. name a \<noteq> [] \<and> role a \<noteq> [] \<and> affiliation a \<noteq> []) default_analysts"
  by (simp add: default_analysts_def)

text \<open>
  C3, as the code has it. Whenever the Persona Generator returns, the cursor is 0, the other
  fields are as before and the roster has at most 3 records. When the response does not
  decode as JSON, decodes to an object without the \<^verbatim>\<open>analysts\<close> key, or one of the first
  three listed records fails validation (a record that lacks one of the three fields does),
  the roster is the fallback roster: exactly 3 records, each with a non-empty name, role and
  affiliation. When the first three listed items (or all of them, if fewer) are valid, the
  roster is exactly these, so it has as many records as the response lists, up to 3; a record
  whose three fields are texts is valid with its texts as given, empty ones included.
\<close>

theorem persona_roster:
  "(\<forall>env x x'. create_analysts env x = Inr x' \<longrightarrow>
      x' = x\<lparr>analysts := analysts x', current_analyst_index := 0\<rparr> \<and>
      current_analyst_index x' = 0 \<and> length (analysts x') \<le> 3) \<and>
   (\<forall>env x r.
      llm_invoke env [SystemMessage (analysts_prompt (topic x))] = Inr r \<longrightarrow>
      json_loads env r = Inl JSONDecodeError \<longrightarrow>
      create_analysts env x =
        Inr (x\<lparr>analysts := default_analysts, current_analyst_index := 0\<rparr>)) \<and>
   (\<forall>env x r kv.
      llm_invoke env [SystemMessage (analysts_prompt (topic x))] = Inr r \<longrightarrow>
      json_loads env r = Inr (PDict kv) \<longrightarrow> map_of kv ''analysts'' = None \<longrightarrow>
      create_analysts env x =
        Inr (x\<lparr>analysts := default_analysts, current_analyst_index := 0\<rparr>)) \<and>
   (\<forall>env x r kv items.
      llm_invoke env [SystemMessage (analysts_prompt (topic x))] = Inr r \<longrightarrow>
      json_loads env r = Inr (PDict kv) \<longrightarrow> map_of kv ''analysts'' = Some (PList items) \<longrightarrow>
      analysts_of env (take 3 items) = Inl ValidationError \<longrightarrow>
      create_analysts env x =
        Inr (x\<lparr>analysts := default_analysts, current_analyst_index := 0\<rparr>)) \<and>
   (\<forall>env kw.
      map_of kw ''name'' = None \<or> map_of kw ''role'' = None \<or> map_of kw ''affiliation'' = None
      \<longrightarrow> Analyst_dict env (PDict kw) = Inl ValidationError) \<and>
   length default_analysts = 3 \<and>
   list_all (\<lambda>a. name a \<noteq> [] \<and> role a \<noteq> [] \<and> affiliation a \<noteq> []) default_analysts \<and>
   (\<forall>env x r kv items roster.
      llm_invoke env [SystemMessage (analysts_prompt (topic x))] = Inr r \<longrightarrow>
      json_loads env r = Inr (PDict kv) \<longrightarrow> map_of kv ''analysts'' = Some (PList items) \<longrightarrow>
      analysts_of env (take 3 items) = Inr roster \<longrightarrow>
      create_analysts env x = Inr (x\<lparr>analysts := roster, current_analyst_index := 0\<rparr>) \<and>
      length roster = min 3 (length items)) \<and>
   (\<forall>env kw n r a.
      map_of kw ''name'' = Some (PStr n) \<longrightarrow> map_of kw ''role'' = Some (PStr r) \<longrightarrow>
      map_of kw ''affiliation'' = Some (PStr a) \<longrightarrow>
      Analyst_dict env (PDict kw) = Inr \<lparr>name = n, role = r, affiliation = a\<rparr>)"
proof (intro conjI allI impI)
  fix env :: env and x x' :: research_state
  assume c: "create_analysts env x = Inr x'"
  from create_analysts_result[OF c]
  show "x' = x\<lparr>analysts := analysts x', current_analyst_index := 0\<rparr>"
    and "length (analysts x') \<le> 3" by simp_all
  from create_analysts_result[OF c] have "x' = x\<lparr>analysts := analysts x', current_analyst_index := 0\<rparr>"
    by simp
  then have "current_analyst_index x' =
      current_analyst_index (x\<lparr>analysts := analysts x', current_analyst_index := 0\<rparr>)" by simp
  then show "current_analyst_index x' = 0" by simp
next
  fix env :: env and x :: research_state and r
  assume llm: "llm_invoke env [SystemMessage (analysts_prompt (topic x))] = Inr r"
    and "json_loads env r = Inl JSONDecodeError"
  then have "parse_analysts env r = Inl JSONDecodeError" by (simp add: parse_analysts_def)
  from create_analysts_fallback[OF llm this]
  show "create_analysts env x =
        Inr (x\<lparr>analysts := default_analysts, current_analyst_index := 0\<rparr>)" by simp
next
  fix env :: env and x :: research_state and r kv
  assume llm: "llm_invoke env [SystemMessage (analysts_prompt (topic x))] = Inr r"
    and "json_loads env r = Inr (PDict kv)" and "map_of kv ''analysts'' = None"
  then have "parse_analysts env r = Inl KeyError" by (simp add: parse_analysts_def)
  from create_analysts_fallback[OF llm this]
  show "create_analysts env x =
        Inr (x\<lparr>analysts := default_analysts, current_analyst_index := 0\<rparr>)" by simp
next
  fix env :: env and x :: research_state and r kv items
  assume llm: "llm_invoke env [SystemMessage (analysts_prompt (topic x))] = Inr r"
    and js: "json_loads env r = Inr (PDict kv)" and an: "map_of kv ''analysts'' = Some (PList items)"
    and bad: "analysts_of env (take 3 items) = Inl ValidationError"
  from bad parse_analysts_list[OF js an] have "parse_analysts env r = Inl ValidationError" by simp
  from create_analysts_fallback[OF llm this]
  show "create_analysts env x =
        Inr (x\<lparr>analysts := default_analysts, current_analyst_index := 0\<rparr>)" by simp
next
  fix env :: env and kw :: "(string \<times> pyval) list"
  assume "map_of kw ''name'' = None \<or> map_of kw ''role'' = None \<or> map_of kw ''affiliation'' = None"
  then show "Analyst_dict env (PDict kw) = Inl ValidationError" by (rule Analyst_dict_missing)
next
  show "length default_analysts = 3" using default_analysts_valid by simp
  show "list_all (\<lambda>a. name a \<noteq> [] \<and> role a \<noteq> [] \<and> affiliation a \<noteq> []) default_analysts"
    using default_analysts_valid by simp
next
  fix env :: env and x :: research_state and r kv items roster
  assume llm: "llm_invoke env [SystemMessage (analysts_prompt (topic x))] = Inr r"
    and js: "json_loads env r = Inr (PDict kv)" and an: "map_of kv ''analysts'' = Some (PList items)"
    and ok: "analysts_of env (take 3 items) = Inr roster"
  from ok parse_analysts_list[OF js an] have "parse_analysts env r = Inr roster" by simp
  from create_analysts_parsed[OF llm this]
  show "create_analysts env x = Inr (x\<lparr>analysts := roster, current_analyst_index := 0\<rparr>)" .
  from analysts_of_length[OF ok] show "length roster = min 3 (length items)" by simp
next
  fix env :: env and kw :: "(string \<times> pyval) list" and n r a
  assume "map_of kw ''name'' = Some (PStr n)" "map_of kw ''role'' = Some (PStr r)"
    "map_of kw ''affiliation'' = Some (PStr a)"
  then show "Analyst_dict env (PDict kw) = Inr \<lparr>name = n, role = r, affiliation = a\<rparr>"
    by (rule Analyst_dict_texts)
qed

theorem persona_roster_witness:
  "create_analysts (fake_env ''Sorry, I cannot help.'' (Inl JSONDecodeError))
     (initial_state ''quantum computing'')
   = Inr ((initial_state ''quantum computing'')
       \<lparr>analysts := default_analysts, current_analyst_index := 0\<rparr>) \<and>
   create_analysts (fake_env ''{}'' (Inr (PDict []))) (initial_state ''quantum computing'')
   = Inr ((initial_state ''quantum computing'')
       \<lparr>analysts := default_analysts, current_analyst_index := 0\<rparr>) \<and>
   length default_analysts = 3"
proof -
  let ?env = "fake_env ''Sorry, I cannot help.'' (Inl JSONDecodeError)"
  let ?env' = "fake_env ''{}'' (Inr (PDict []))"
  have llm: "llm_invoke ?env
      [SystemMessage (analysts_prompt (topic (initial_state ''quantum computing'')))]
      = Inr ''Sorry, I cannot help.''"
    by (simp add: fake_env_def)
  have js: "json_loads ?env ''Sorry, I cannot help.'' = Inl JSONDecodeError"
    by (simp add: fake_env_def)
  have llm': "llm_invoke ?env'
      [SystemMessage (analysts_prompt (topic (initial_state ''quantum computing'')))] = Inr ''{}''"
    by (simp add: fake_env_def)
  have js': "json_loads ?env' ''{}'' = Inr (PDict [])"
    by (simp add: fake_env_def)
  have no: "map_of ([] :: (string \<times> pyval) list) ''analysts'' = None" by simp
  from persona_roster[THEN conjunct2, THEN conjunct1, rule_format, OF llm js]
    persona_roster[THEN conjunct2, THEN conjunct2, THEN conjunct1, rule_format, OF llm' js' no]
    persona_roster[THEN conjunct2, THEN conjunct2, THEN conjunct2, THEN conjunct2,
      THEN conjunct2, THEN conjunct1]
  show ?thesis by simp
qed

text \<open>
  C3, as the claim states it, fails: for the well-formed response
  \<^verbatim>\<open>{"analysts": [{"name": "Ada", "role": "Analyst", "affiliation": ""}]}\<close> the roster has
  one record, not three, and its affiliation is empty.
\<close>

theorem persona_roster_counterexample:
  "create_analysts (fake_env one_analyst_response (Inr one_analyst_decoded))
     (initial_state ''quantum computing'')
   = Inr ((initial_state ''quantum computing'')
       \<lparr>analysts := [\<lparr>name = ''Ada'', role = ''Analyst'', affiliation = []\<rparr>],
        current_analyst_index := 0\<rparr>)"
  by (simp add: create_analysts_def parse_analysts_def fake_env_def one_analyst_decoded_def
      Analyst_init_def str_field_def)

text \<open>
  C2. The handler of \<open>create_analysts\<close> lists \<open>JSONDecodeError\<close>, \<open>KeyError\<close> and
  \<open>ValueError\<close>. The response \<^verbatim>\<open>[]\<close> is valid JSON of the wrong shape: subscripting the
  decoded list with \<^verbatim>\<open>'analysts'\<close> raises \<open>TypeError\<close>, which is not handled, so no
  fallback roster is substituted and the run ends in the Persona Generator.
\<close>

theorem top_level_array_aborts:
  "create_analysts (fake_env ''[]'' (Inr (PList []))) (initial_state ''quantum computing'')
     = Inl TypeError \<and>
   run_graph (fake_env ''[]'' (Inr (PList []))) entry_point (initial_state ''quantum computing'')
     = ([create_analysts_node], Inl TypeError) \<and>
   generate_report (fake_env ''[]'' (Inr (PList []))) ''quantum computing'' = Some (Inl TypeError)"
proof -
  have c: "create_analysts (fake_env ''[]'' (Inr (PList []))) (initial_state ''quantum computing'')
     = Inl TypeError"
    by (simp add: create_analysts_def parse_analysts_def fake_env_def)
  then have r: "run_graph (fake_env ''[]'' (Inr (PList []))) entry_point
      (initial_state ''quantum computing'') = ([create_analysts_node], Inl TypeError)"
    by (subst run_graph.simps) (simp add: entry_point_def)
  from c r show ?thesis by (simp add: generate_report_def)
qed

section \<open>The interview loop\<close>

lemma conduct_interview_effect:
  "conduct_interview env x = Inr x' \<Longrightarrow>
   \<exists>s. x' = x\<lparr>sections := sections x @ [s],
                current_analyst_index := current_analyst_index x + 1\<rparr>"
  by (auto simp: conduct_interview_def split: sum.splits)

lemma conduct_interview_in_range:
  "conduct_interview env x = Inr x' \<Longrightarrow> 0 \<le> current_analyst_index x \<Longrightarrow>
   current_analyst_index x < int (length (analysts x))"
  by (auto simp: conduct_interview_def list_index_def split: sum.splits if_splits)

lemma conduct_interview_out_of_range:
  "0 \<le> current_analyst_index x \<Longrightarrow> int (length (analysts x)) \<le> current_analyst_index x \<Longrightarrow>
   conduct_interview env x = Inl IndexError"
  by (simp add: conduct_interview_def list_index_def)

lemma conduct_interview_responsive:
  assumes "responsive env" and "0 \<le> current_analyst_index x"
    and "current_analyst_index x < int (length (analysts x))"
  shows "\<exists>s. conduct_interview env x =
           Inr (x\<lparr>sections := sections x @ [s],
                   current_analyst_index := current_analyst_index x + 1\<rparr>)"
proof -
  from assms(2,3) obtain a where a: "list_index (analysts x) (current_analyst_index x) = Inr a"
    by (simp add: list_index_def)
  from assms(1) have llm: "\<And>ms. \<exists>r. llm_invoke env ms = Inr r"
    and tav: "\<And>q. \<exists>v ds ss. tavily_search_invoke env q = Inr v \<and> py_iter v = Inr ds \<and>
        text_items (search_contents ds) = Inr ss"
    and wiki: "\<And>q. \<exists>ws. wikipedia_load env q = Inr ws"
    by (simp_all add: responsive_def)
  obtain question where q: "llm_invoke env [SystemMessage (question_prompt a (topic x))] = Inr question"
    using llm by blast
  obtain search_query where sq: "llm_invoke env
      [SystemMessage ''Generate a search query based on the question.'', HumanMessage question]
      = Inr search_query"
    using llm by blast
  obtain v ds ss where t: "tavily_search_invoke env search_query = Inr v" "py_iter v = Inr ds"
      "text_items (search_contents ds) = Inr ss"
    using tav by blast
  obtain ws where w: "wikipedia_load env search_query = Inr ws" using wiki by blast
  have ctx: "context_of ds ws = Inr (join_texts ''\<newline>'' (ss @ ws))"
    using t(3) by (simp add: context_of_def py_join_def text_items_append)
  obtain answer where an: "llm_invoke env
      [SystemMessage (answer_prompt (topic x) (join_texts ''\<newline>'' (ss @ ws))),
       HumanMessage question] = Inr answer"
    using llm by blast
  obtain s where s: "llm_invoke env
      [SystemMessage (section_prompt (topic x) a),
       HumanMessage (''Q: '' @ question @ ''\<newline>A: '' @ answer)] = Inr s"
    using llm by blast
  from a q sq t w ctx an s have "conduct_interview env x =
      Inr (x\<lparr>sections := sections x @ [s],
              current_analyst_index := current_analyst_index x + 1\<rparr>)"
    by (simp add: conduct_interview_def)
  then show ?thesis by blast
qed

lemma write_report_responsive:
  "responsive env \<Longrightarrow> \<exists>c. write_report env x = Inr (x\<lparr>content := c\<rparr>)"
proof -
  assume "responsive env"
  then obtain r where r: "llm_invoke env
      [SystemMessage (''Write a comprehensive report on '' @ topic x @
          '' based on these sections: '' @ repr_list env (sections x))] = Inr r"
    unfolding responsive_def by blast
  show ?thesis unfolding write_report_def by (simp only: r sum.case) blast
qed

lemma split_intro_conclusion_total: "\<exists>i c. split_intro_conclusion r = Inr (i, c)"
  by (simp add: split_intro_conclusion_def py_split_def Let_def)

lemma write_intro_conclusion_responsive:
  "responsive env \<Longrightarrow>
   \<exists>i c. write_intro_conclusion env x = Inr (x\<lparr>introduction := i, conclusion := c\<rparr>)"
proof -
  assume "responsive env"
  then obtain r where r: "llm_invoke env
      [SystemMessage (intro_conclusion_prompt (topic x)), HumanMessage (content x)] = Inr r"
    unfolding responsive_def by blast
  obtain i c where "split_intro_conclusion r = Inr (i, c)"
    using split_intro_conclusion_total by blast
  with r show ?thesis by (auto simp: write_intro_conclusion_def)
qed

lemma run_graph_after_loop:
  assumes "responsive env"
  shows "\<exists>x'. run_graph env write_report_node x =
             ([write_report_node, write_intro_conclusion_node, finalize_report_node], Inr x') \<and>
           analysts x' = analysts x \<and> current_analyst_index x' = current_analyst_index x \<and>
           sections x' = sections x"
proof -
  obtain c where c: "write_report env x = Inr (x\<lparr>content := c\<rparr>)"
    using write_report_responsive[OF assms] by blast
  obtain i k where ik: "write_intro_conclusion env (x\<lparr>content := c\<rparr>) =
      Inr (x\<lparr>content := c, introduction := i, conclusion := k\<rparr>)"
    using write_intro_conclusion_responsive[OF assms, of "x\<lparr>content := c\<rparr>"] by auto
  have e: "run_graph env END (finalize_report (x\<lparr>content := c, introduction := i, conclusion := k\<rparr>))
      = ([], Inr (finalize_report (x\<lparr>content := c, introduction := i, conclusion := k\<rparr>)))"
    by (subst run_graph.simps) simp
  have f: "run_graph env finalize_report_node (x\<lparr>content := c, introduction := i, conclusion := k\<rparr>)
      = ([finalize_report_node],
         Inr (finalize_report (x\<lparr>content := c, introduction := i, conclusion := k\<rparr>)))"
    by (subst run_graph.simps) (simp add: e)
  have w: "run_graph env write_intro_conclusion_node (x\<lparr>content := c\<rparr>)
      = ([write_intro_conclusion_node, finalize_report_node],
         Inr (finalize_report (x\<lparr>content := c, introduction := i, conclusion := k\<rparr>)))"
    by (subst run_graph.simps) (simp add: ik f)
  have "run_graph env write_report_node x
      = ([write_report_node, write_intro_conclusion_node, finalize_report_node],
         Inr (finalize_report (x\<lparr>content := c, introduction := i, conclusion := k\<rparr>)))"
    by (subst run_graph.simps) (simp add: c w)
  then show ?thesis by (simp add: finalize_report_def)
qed

lemma run_graph_loop:
  assumes "responsive env"
  shows "k = nat (int (length (analysts x)) - current_analyst_index x) \<Longrightarrow>
         0 \<le> current_analyst_index x \<Longrightarrow> current_analyst_index x < int (length (analysts x)) \<Longrightarrow>
         \<exists>x'. run_graph env conduct_interview_node x =
             (replicate k conduct_interview_node @
                [write_report_node, write_intro_conclusion_node, finalize_report_node], Inr x') \<and>
           analysts x' = analysts x \<and>
           current_analyst_index x' = int (length (analysts x)) \<and>
           length (sections x') = length (sections x) + k"
proof (induction k arbitrary: x)
  case 0
  then show ?case by simp
next
  case (Suc k)
  obtain s where s: "conduct_interview env x =
      Inr (x\<lparr>sections := sections x @ [s], current_analyst_index := current_analyst_index x + 1\<rparr>)"
    using conduct_interview_responsive[OF assms Suc.prems(2,3)] by blast
  let ?x1 = "x\<lparr>sections := sections x @ [s], current_analyst_index := current_analyst_index x + 1\<rparr>"
  show ?case
  proof (cases "current_analyst_index x + 1 < int (length (analysts x))")
    case True
    from Suc.prems(1) have k: "k = nat (int (length (analysts ?x1)) - current_analyst_index ?x1)"
      by simp
    from Suc.IH[OF k] Suc.prems(2) True
    obtain x' where x': "run_graph env conduct_interview_node ?x1 =
             (replicate k conduct_interview_node @
                [write_report_node, write_intro_conclusion_node, finalize_report_node], Inr x')"
        "analysts x' = analysts x" "current_analyst_index x' = int (length (analysts x))"
        "length (sections x') = length (sections ?x1) + k"
      by auto
    have "run_graph env conduct_interview_node x =
        (conduct_interview_node # replicate k conduct_interview_node @
                [write_report_node, write_intro_conclusion_node, finalize_report_node], Inr x')"
      by (subst run_graph.simps) (simp add: s True x'(1))
    with x' show ?thesis by simp
  next
    case False
    with Suc.prems have k0: "k = 0" and last: "current_analyst_index x + 1 = int (length (analysts x))"
      by simp_all
    obtain x' where x': "run_graph env write_report_node ?x1 =
             ([write_report_node, write_intro_conclusion_node, finalize_report_node], Inr x')"
        "analysts x' = analysts ?x1" "current_analyst_index x' = current_analyst_index ?x1"
        "sections x' = sections ?x1"
      using run_graph_after_loop[OF assms, of ?x1] by blast
    have "run_graph env conduct_interview_node x =
        ([conduct_interview_node, write_report_node, write_intro_conclusion_node,
          finalize_report_node], Inr x')"
      by (subst run_graph.simps) (simp add: s False x'(1))
    with x' k0 last show ?thesis by simp
  qed
qed


lemma count_conduct_trace:
  "count_list (replicate k conduct_interview_node @
      [write_report_node, write_intro_conclusion_node, finalize_report_node])
     conduct_interview_node = k"
  by (induction k) simp_all

lemma responsive_fake_env: "responsive (fake_env response decoded)"
  by (simp add: responsive_def fake_env_def search_contents_def py_or_def dict_get_def)

text \<open>
  C4, as the code has it. The edge from the Persona Generator to the Interview Conductor is
  unconditional and the condition is read only after a conductor completion, where the run
  goes back to the conductor when \<^verbatim>\<open>cursor < len(analysts)\<close> and on to report synthesis
  otherwise. So for a roster of size \<open>N \<ge> 1\<close>, entered with cursor 0 and no sections, and
  collaborators that answer, the run terminates: the conductor is entered exactly \<open>N\<close> times,
  then the three remaining nodes, and the final state has cursor \<open>N\<close> and \<open>N\<close> sections. The
  same holds for a whole run from the entry point whose roster is not empty.
\<close>

theorem interview_loop_terminates:
  "(\<forall>env x. responsive env \<longrightarrow> analysts x \<noteq> [] \<longrightarrow> current_analyst_index x = 0 \<longrightarrow>
      sections x = [] \<longrightarrow>
      (\<exists>x'. run_graph env conduct_interview_node x =
          (replicate (length (analysts x)) conduct_interview_node @
             [write_report_node, write_intro_conclusion_node, finalize_report_node], Inr x') \<and>
        count_list (fst (run_graph env conduct_interview_node x)) conduct_interview_node
          = length (analysts x) \<and>
        current_analyst_index x' = int (length (analysts x)) \<and>
        length (sections x') = length (analysts x))) \<and>
   (\<forall>env t x1. responsive env \<longrightarrow> create_analysts env (initial_state t) = Inr x1 \<longrightarrow>
      analysts x1 \<noteq> [] \<longrightarrow>
      (\<exists>x'. run_graph env entry_point (initial_state t) =
          (create_analysts_node # replicate (length (analysts x1)) conduct_interview_node @
             [write_report_node, write_intro_conclusion_node, finalize_report_node], Inr x') \<and>
        current_analyst_index x' = int (length (analysts x1)) \<and>
        length (sections x') = length (analysts x1))) \<and>
   (\<forall>x. next_node conduct_interview_node x =
      (if current_analyst_index x < int (length (analysts x))
       then conduct_interview_node else write_report_node))"
proof (intro conjI allI impI)
  fix env :: env and x :: research_state
  assume r: "responsive env" and ne: "analysts x \<noteq> []"
    and c0: "current_analyst_index x = 0" and s0: "sections x = []"
  from c0 ne have k: "length (analysts x) = nat (int (length (analysts x)) - current_analyst_index x)"
    and lo: "0 \<le> current_analyst_index x" and hi: "current_analyst_index x < int (length (analysts x))"
    by simp_all
  from run_graph_loop[OF r k lo hi] s0
  obtain x' where x': "run_graph env conduct_interview_node x =
          (replicate (length (analysts x)) conduct_interview_node @
             [write_report_node, write_intro_conclusion_node, finalize_report_node], Inr x')"
      "current_analyst_index x' = int (length (analysts x))"
      "length (sections x') = length (analysts x)"
    by auto
  from x'(1) have "count_list (fst (run_graph env conduct_interview_node x)) conduct_interview_node
      = length (analysts x)"
    by (simp only: fst_conv count_conduct_trace)
  with x' show "\<exists>x'. run_graph env conduct_interview_node x =
          (replicate (length (analysts x)) conduct_interview_node @
             [write_report_node, write_intro_conclusion_node, finalize_report_node], Inr x') \<and>
        count_list (fst (run_graph env conduct_interview_node x)) conduct_interview_node
          = length (analysts x) \<and>
        current_analyst_index x' = int (length (analysts x)) \<and>
        length (sections x') = length (analysts x)"
    by blast
next
  fix env :: env and t and x1 :: research_state
  assume r: "responsive env" and c: "create_analysts env (initial_state t) = Inr x1"
    and ne: "analysts x1 \<noteq> []"
  from create_analysts_result[OF c]
  have x1: "x1 = (initial_state t)\<lparr>analysts := analysts x1, current_analyst_index := 0\<rparr>" by simp
  have c0: "current_analyst_index x1 = 0" by (subst x1) simp
  have s0: "sections x1 = []" by (subst x1) (simp add: initial_state_def)
  from c0 ne have k: "length (analysts x1) = nat (int (length (analysts x1)) - current_analyst_index x1)"
    and lo: "0 \<le> current_analyst_index x1"
    and hi: "current_analyst_index x1 < int (length (analysts x1))"
    by simp_all
  from run_graph_loop[OF r k lo hi] s0
  obtain x' where x': "run_graph env conduct_interview_node x1 =
          (replicate (length (analysts x1)) conduct_interview_node @
             [write_report_node, write_intro_conclusion_node, finalize_report_node], Inr x')"
      "current_analyst_index x' = int (length (analysts x1))"
      "length (sections x') = length (analysts x1)"
    by auto
  have "run_graph env entry_point (initial_state t) =
          (create_analysts_node # replicate (length (analysts x1)) conduct_interview_node @
             [write_report_node, write_intro_conclusion_node, finalize_report_node], Inr x')"
    by (subst run_graph.simps) (simp add: entry_point_def c x'(1))
  with x' show "\<exists>x'. run_graph env entry_point (initial_state t) =
          (create_analysts_node # replicate (length (analysts x1)) conduct_interview_node @
             [write_report_node, write_intro_conclusion_node, finalize_report_node], Inr x') \<and>
        current_analyst_index x' = int (length (analysts x1)) \<and>
        length (sections x') = length (analysts x1)"
    by blast
next
  fix x :: research_state
  show "next_node conduct_interview_node x =
      (if current_analyst_index x < int (length (analysts x))
       then conduct_interview_node else write_report_node)"
    by simp
qed

theorem interview_loop_terminates_witness:
  "responsive (fake_env ''Sorry, I cannot help.'' (Inl JSONDecodeError)) \<and>
   (\<exists>x'. run_graph (fake_env ''Sorry, I cannot help.'' (Inl JSONDecodeError)) entry_point
            (initial_state ''quantum computing'')
          = ([create_analysts_node, conduct_interview_node, conduct_interview_node,
              conduct_interview_node, write_report_node, write_intro_conclusion_node,
              finalize_report_node], Inr x') \<and>
          current_analyst_index x' = 3 \<and> length (sections x') = 3)"
proof -
  let ?env = "fake_env ''Sorry, I cannot help.'' (Inl JSONDecodeError)"
  let ?x1 = "(initial_state ''quantum computing'')
       \<lparr>analysts := default_analysts, current_analyst_index := 0\<rparr>"
  have r: "responsive ?env" by (rule responsive_fake_env)
  have c: "create_analysts ?env (initial_state ''quantum computing'') = Inr ?x1"
    by (simp add: create_analysts_def parse_analysts_def fake_env_def)
  have ne: "analysts ?x1 \<noteq> []" by (simp add: default_analysts_def)
  have n: "length (analysts ?x1) = 3" by (simp add: default_analysts_def)
  from interview_loop_terminates[THEN conjunct2, THEN conjunct1, rule_format, OF r c ne] r
  show ?thesis unfolding n by (simp add: numeral_3_eq_3)
qed

text \<open>
  C4, as the claim states it, fails for \<open>N = 0\<close>: when the response is
  \<^verbatim>\<open>{"analysts": []}\<close> the roster is empty, the conductor is still entered once, and it
  ends the run with \<open>IndexError\<close> on \<^verbatim>\<open>state['analysts'][0]\<close>.
\<close>

theorem interview_loop_counterexample:
  "run_graph (fake_env empty_roster_response (Inr empty_roster_decoded)) entry_point
     (initial_state ''quantum computing'')
   = ([create_analysts_node, conduct_interview_node], Inl IndexError)"
proof -
  let ?env = "fake_env empty_roster_response (Inr empty_roster_decoded)"
  let ?x1 = "(initial_state ''quantum computing'')\<lparr>analysts := [], current_analyst_index := 0\<rparr>"
  have c: "create_analysts ?env (initial_state ''quantum computing'') = Inr ?x1"
    by (simp add: create_analysts_def parse_analysts_def fake_env_def empty_roster_decoded_def)
  have i: "conduct_interview ?env ?x1 = Inl IndexError"
    by (rule conduct_interview_out_of_range) simp_all
  have "run_graph ?env conduct_interview_node ?x1 = ([conduct_interview_node], Inl IndexError)"
    by (subst run_graph.simps) (simp add: i)
  then show ?thesis
    by (subst run_graph.simps) (simp add: entry_point_def c)
qed


section \<open>The state invariant\<close>

lemma reachable_invariant:
  "reachable env t n x \<Longrightarrow>
     0 \<le> current_analyst_index x \<and>
     current_analyst_index x \<le> int (length (analysts x)) \<and>
     int (length (sections x)) = current_analyst_index x \<and>
     (n = create_analysts_node \<longrightarrow> current_analyst_index x = 0) \<and>
     (n = conduct_interview_node \<longrightarrow>
        current_analyst_index x < int (length (analysts x)) \<or> analysts x = []) \<and>
     (n \<noteq> create_analysts_node \<and> n \<noteq> conduct_interview_node \<longrightarrow>
        current_analyst_index x = int (length (analysts x)))"
proof (induction rule: reachable.induct)
  case start
  then show ?case by (simp add: entry_point_def initial_state_def)
next
  case (step n x x')
  show ?case
  proof (cases n)
    case create_analysts_node
    with step.hyps(3) have "create_analysts env x = Inr x'" by simp
    from create_analysts_result[OF this]
    have x': "x' = x\<lparr>analysts := analysts x', current_analyst_index := 0\<rparr>" by simp
    have "current_analyst_index x' = 0" "sections x' = sections x" by (subst x', simp)+
    with step.IH create_analysts_node show ?thesis by auto
  next
    case conduct_interview_node
    with step.hyps(3) have c: "conduct_interview env x = Inr x'" by simp
    from conduct_interview_effect[OF c] obtain s where
      x': "x' = x\<lparr>sections := sections x @ [s],
                   current_analyst_index := current_analyst_index x + 1\<rparr>" by blast
    from conduct_interview_in_range[OF c] step.IH
    have "current_analyst_index x < int (length (analysts x))" by simp
    with step.IH conduct_interview_node x' show ?thesis by auto
  next
    case write_report_node
    with step.hyps(3) obtain c where "x' = x\<lparr>content := c\<rparr>"
      by (auto simp: write_report_def split: sum.splits)
    with step.IH write_report_node show ?thesis by auto
  next
    case write_intro_conclusion_node
    with step.hyps(3) obtain i c where "x' = x\<lparr>introduction := i, conclusion := c\<rparr>"
      by (auto simp: write_intro_conclusion_def split: sum.splits)
    with step.IH write_intro_conclusion_node show ?thesis by auto
  next
    case finalize_report_node
    with step.hyps(3) step.IH show ?thesis by (auto simp: finalize_report_def)
  next
    case END
    with step.hyps(2) show ?thesis by simp
  qed
qed

text \<open>
  C5, as the code has it. In every configuration of a run \<^verbatim>\<open>0 \<le> cursor \<le> len(analysts)\<close>
  and \<^verbatim>\<open>len(sections) == cursor\<close>, so also at the start of every conductor invocation and
  after every completion; a completed invocation appends exactly one section, adds exactly 1
  to the cursor and leaves the roster alone. After a completion the run leaves the loop
  exactly when \<^verbatim>\<open>cursor == len(analysts)\<close>, and past the loop the two are equal. At the
  start of an invocation the cursor is below the roster length unless the roster is empty:
  the condition is not read before the first invocation.
\<close>

theorem run_invariant:
  "reachable env t n x \<Longrightarrow>
     0 \<le> current_analyst_index x \<and>
     current_analyst_index x \<le> int (length (analysts x)) \<and>
     int (length (sections x)) = current_analyst_index x \<and>
     (n = conduct_interview_node \<longrightarrow>
        current_analyst_index x < int (length (analysts x)) \<or> analysts x = []) \<and>
     (n \<noteq> create_analysts_node \<and> n \<noteq> conduct_interview_node \<longrightarrow>
        current_analyst_index x = int (length (analysts x))) \<and>
     (\<forall>x'. n = conduct_interview_node \<longrightarrow> conduct_interview env x = Inr x' \<longrightarrow>
        (\<exists>s. sections x' = sections x @ [s]) \<and>
        current_analyst_index x' = current_analyst_index x + 1 \<and>
        analysts x' = analysts x \<and>
        int (length (sections x')) = current_analyst_index x' \<and>
        current_analyst_index x' \<le> int (length (analysts x')) \<and>
        (next_node conduct_interview_node x' = write_report_node \<longleftrightarrow>
           current_analyst_index x' = int (length (analysts x'))) \<and>
        (next_node conduct_interview_node x' = conduct_interview_node \<longleftrightarrow>
           current_analyst_index x' < int (length (analysts x'))))"
proof -
  assume r: "reachable env t n x"
  note inv = reachable_invariant[OF r]
  have "\<And>x'. n = conduct_interview_node \<Longrightarrow> conduct_interview env x = Inr x' \<Longrightarrow>
        (\<exists>s. sections x' = sections x @ [s]) \<and>
        current_analyst_index x' = current_analyst_index x + 1 \<and>
        analysts x' = analysts x \<and>
        int (length (sections x')) = current_analyst_index x' \<and>
        current_analyst_index x' \<le> int (length (analysts x')) \<and>
        (next_node conduct_interview_node x' = write_report_node \<longleftrightarrow>
           current_analyst_index x' = int (length (analysts x'))) \<and>
        (next_node conduct_interview_node x' = conduct_interview_node \<longleftrightarrow>
           current_analyst_index x' < int (length (analysts x')))"
  proof -
    fix x' assume n: "n = conduct_interview_node" and c: "conduct_interview env x = Inr x'"
    from conduct_interview_effect[OF c] obtain s where
      x': "x' = x\<lparr>sections := sections x @ [s],
                   current_analyst_index := current_analyst_index x + 1\<rparr>" by blast
    from conduct_interview_in_range[OF c] inv
    have lt: "current_analyst_index x < int (length (analysts x))" by simp
    have f: "sections x' = sections x @ [s]"
      "current_analyst_index x' = current_analyst_index x + 1" "analysts x' = analysts x"
      by (subst x', simp)+
    from f lt inv show "(\<exists>s. sections x' = sections x @ [s]) \<and>
        current_analyst_index x' = current_analyst_index x + 1 \<and>
        analysts x' = analysts x \<and>
        int (length (sections x')) = current_analyst_index x' \<and>
        current_analyst_index x' \<le> int (length (analysts x')) \<and>
        (next_node conduct_interview_node x' = write_report_node \<longleftrightarrow>
           current_analyst_index x' = int (length (analysts x'))) \<and>
        (next_node conduct_interview_node x' = conduct_interview_node \<longleftrightarrow>
           current_analyst_index x' < int (length (analysts x')))"
      by auto
  qed
  with inv show ?thesis by blast
qed

theorem run_invariant_witness:
  "reachable (fake_env ''Sorry, I cannot help.'' (Inl JSONDecodeError)) ''quantum computing''
     conduct_interview_node
     ((initial_state ''quantum computing'')\<lparr>analysts := default_analysts,
        current_analyst_index := 0\<rparr>) \<and>
   (\<exists>s. conduct_interview (fake_env ''Sorry, I cannot help.'' (Inl JSONDecodeError))
      ((initial_state ''quantum computing'')\<lparr>analysts := default_analysts,
         current_analyst_index := 0\<rparr>)
    = Inr ((initial_state ''quantum computing'')\<lparr>analysts := default_analysts,
         sections := [s], current_analyst_index := 1\<rparr>)) \<and>
   next_node conduct_interview_node
     ((initial_state ''quantum computing'')\<lparr>analysts := default_analysts,
         sections := [''s''], current_analyst_index := 1\<rparr>)
     = conduct_interview_node"
proof -
  let ?env = "fake_env ''Sorry, I cannot help.'' (Inl JSONDecodeError)"
  let ?x0 = "initial_state ''quantum computing''"
  let ?x1 = "?x0\<lparr>analysts := default_analysts, current_analyst_index := 0\<rparr>"
  have c: "run_node ?env create_analysts_node ?x0 = Inr ?x1"
    by (simp add: create_analysts_def parse_analysts_def fake_env_def)
  have "reachable ?env ''quantum computing'' (next_node create_analysts_node ?x1) ?x1"
    by (rule reachable.step[OF reachable.start[unfolded entry_point_def] _ c]) simp
  then have r: "reachable ?env ''quantum computing'' conduct_interview_node ?x1" by simp
  note inv = run_invariant[OF r]
  from inv have lo: "0 \<le> current_analyst_index ?x1"
    and hi: "current_analyst_index ?x1 < int (length (analysts ?x1))"
    by (simp_all add: default_analysts_def)
  from conduct_interview_responsive[OF responsive_fake_env lo hi]
  obtain s where s: "conduct_interview ?env ?x1 =
      Inr (?x1\<lparr>sections := sections ?x1 @ [s],
                 current_analyst_index := current_analyst_index ?x1 + 1\<rparr>)" by blast
  from inv s have "next_node conduct_interview_node
      (?x1\<lparr>sections := sections ?x1 @ [s],
            current_analyst_index := current_analyst_index ?x1 + 1\<rparr>) = conduct_interview_node"
    by (simp add: default_analysts_def)
  with r s show ?thesis
    by (auto simp: initial_state_def default_analysts_def)
qed

text \<open>
  C5, as the claim states it, fails in its last part: in the run on the response
  \<^verbatim>\<open>{"analysts": []}\<close> the configuration after the Persona Generator has
  \<^verbatim>\<open>cursor == len(analysts) == 0\<close>, and the loop is not over there: the run enters the
  Interview Conductor, which raises \<open>IndexError\<close>.
\<close>

theorem run_invariant_counterexample:
  "reachable (fake_env empty_roster_response (Inr empty_roster_decoded)) ''quantum computing''
     conduct_interview_node
     ((initial_state ''quantum computing'')\<lparr>analysts := [], current_analyst_index := 0\<rparr>) \<and>
   current_analyst_index
     ((initial_state ''quantum computing'')\<lparr>analysts := [], current_analyst_index := 0\<rparr>)
   = int (length (analysts
       ((initial_state ''quantum computing'')\<lparr>analysts := [], current_analyst_index := 0\<rparr>))) \<and>
   run_node (fake_env empty_roster_response (Inr empty_roster_decoded)) conduct_interview_node
     ((initial_state ''quantum computing'')\<lparr>analysts := [], current_analyst_index := 0\<rparr>)
   = Inl IndexError"
proof -
  let ?env = "fake_env empty_roster_response (Inr empty_roster_decoded)"
  let ?x0 = "initial_state ''quantum computing''"
  let ?x1 = "?x0\<lparr>analysts := [], current_analyst_index := 0\<rparr>"
  have c: "run_node ?env create_analysts_node ?x0 = Inr ?x1"
    by (simp add: create_analysts_def parse_analysts_def fake_env_def empty_roster_decoded_def)
  have "reachable ?env ''quantum computing'' (next_node create_analysts_node ?x1) ?x1"
    by (rule reachable.step[OF reachable.start[unfolded entry_point_def] _ c]) simp
  then have r: "reachable ?env ''quantum computing'' conduct_interview_node ?x1" by simp
  have i: "conduct_interview ?env ?x1 = Inl IndexError"
    by (rule conduct_interview_out_of_range) simp_all
  from r i show ?thesis by simp
qed

section \<open>The length of a run\<close>

text \<open>
  Whatever the collaborators do, a run from the entry point enters at most 7 nodes: the
  Persona Generator, the Interview Conductor at most 3 times, and the three nodes after the
  loop. LangGraph's own step limit (25 by default) is therefore never reached and is not
  part of \<open>run_graph\<close>.
\<close>

lemma run_graph_END: "run_graph env END x = ([], Inr x)"
  by (subst run_graph.simps) simp

lemma steps_finalize: "length (fst (run_graph env finalize_report_node x)) \<le> 1"
  by (subst run_graph.simps) (simp add: run_graph_END)

lemma steps_write_intro_conclusion:
  "length (fst (run_graph env write_intro_conclusion_node x)) \<le> 2"
proof (cases "write_intro_conclusion env x")
  case (Inl e)
  then show ?thesis by (subst run_graph.simps) simp
next
  case (Inr x')
  with steps_finalize[of env x'] show ?thesis
    by (subst run_graph.simps) (auto split: prod.splits)
qed

lemma steps_write_report: "length (fst (run_graph env write_report_node x)) \<le> 3"
proof (cases "write_report env x")
  case (Inl e)
  then show ?thesis by (subst run_graph.simps) simp
next
  case (Inr x')
  with steps_write_intro_conclusion[of env x'] show ?thesis
    by (subst run_graph.simps) (auto split: prod.splits)
qed

lemma steps_conduct_interview:
  "k = nat (int (length (analysts x)) - current_analyst_index x) \<Longrightarrow>
   0 \<le> current_analyst_index x \<Longrightarrow>
   length (fst (run_graph env conduct_interview_node x)) \<le> k + 3"
proof (induction k arbitrary: x)
  case 0
  then have "conduct_interview env x = Inl IndexError"
    by (intro conduct_interview_out_of_range) simp_all
  then show ?case by (subst run_graph.simps) simp
next
  case (Suc k)
  show ?case
  proof (cases "conduct_interview env x")
    case (Inl e)
    then show ?thesis by (subst run_graph.simps) simp
  next
    case (Inr x')
    from conduct_interview_effect[OF Inr] obtain s where
      x': "x' = x\<lparr>sections := sections x @ [s],
                   current_analyst_index := current_analyst_index x + 1\<rparr>" by blast
    show ?thesis
    proof (cases "current_analyst_index x' < int (length (analysts x'))")
      case True
      from Suc.prems x' have "k = nat (int (length (analysts x')) - current_analyst_index x')"
        "0 \<le> current_analyst_index x'" by simp_all
      from Suc.IH[OF this] Inr True show ?thesis
        by (subst run_graph.simps) (auto split: prod.splits)
    next
      case False
      with steps_write_report[of env x'] Inr show ?thesis
        by (subst run_graph.simps) (auto split: prod.splits)
    qed
  qed
qed

lemma steps_run: "length (fst (run_graph env entry_point (initial_state t))) \<le> 7"
proof (cases "create_analysts env (initial_state t)")
  case (Inl e)
  then show ?thesis by (subst run_graph.simps) (simp add: entry_point_def)
next
  case (Inr x')
  from create_analysts_result[OF Inr]
  have x': "x' = (initial_state t)\<lparr>analysts := analysts x', current_analyst_index := 0\<rparr>"
    and le: "length (analysts x') \<le> 3" by simp_all
  have c0: "current_analyst_index x' = 0" by (subst x') simp
  from c0 have "length (analysts x') = nat (int (length (analysts x')) - current_analyst_index x')"
    "0 \<le> current_analyst_index x'" by simp_all
  from steps_conduct_interview[OF this, of env] le
  have "length (fst (run_graph env conduct_interview_node x')) \<le> 6" by simp
  with Inr show ?thesis
    by (subst run_graph.simps) (auto simp: entry_point_def split: prod.splits)
qed

end
